theory Spec2Isabelle
  imports Main "HOL-Library.Word"
begin

unbundle bit_operations_syntax

section \<open>The CEC initiator: data model\<close>

text \<open>
  The embedded C file is the bit-banging CEC transmitter (the part of
  \<^verbatim>\<open>src/unnamed/part_000\<close> from \<^verbatim>\<open>APB1_TICKS\<close> to \<^verbatim>\<open>hc_cec_write\<close>).
  \<^verbatim>\<open>uint8_t\<close> is \<open>8 word\<close>, \<^verbatim>\<open>uint32_t\<close> is \<open>32 word\<close> (arithmetic wraps),
  a C \<^verbatim>\<open>int\<close> that only holds small values is \<open>int\<close>, and the conversion of an
  unsigned 32-bit value to \<^verbatim>\<open>int\<close> is \<open>sint\<close>.
\<close>

type_synonym u8 = "8 word"
type_synonym u32 = "32 word"

text \<open>
  Modelled from the spec: \<^verbatim>\<open>MAX_CEC_MSG_LEN\<close> is declared in a header that is not
  part of the sources at hand; the spec gives messages of 1 to 16 bytes.
\<close>
definition MAX_CEC_MSG_LEN :: nat where
  "MAX_CEC_MSG_LEN = 16"

definition CEC_BROADCAST_ADDR :: u8 where
  "CEC_BROADCAST_ADDR = 15"

definition CEC_MAX_RESENDS :: u8 where
  "CEC_MAX_RESENDS = 5"

text \<open>
  The two event bits \<^verbatim>\<open>EC_MKBP_CEC_SEND_OK\<close> and \<^verbatim>\<open>EC_MKBP_CEC_SEND_FAILED\<close> come
  from a header that is not part of the sources at hand either, and nothing fixes
  their values: they are parameters of the model.
\<close>
record ec_commands =
  EC_MKBP_CEC_SEND_OK :: u32
  EC_MKBP_CEC_SEND_FAILED :: u32

datatype ec_status = EC_RES_SUCCESS | EC_RES_INVALID_PARAM | EC_RES_BUSY

datatype cec_state =
    CEC_STATE_IDLE
  | CEC_STATE_INITIATOR_FREE_TIME
  | CEC_STATE_INITIATOR_START_LOW
  | CEC_STATE_INITIATOR_START_HIGH
  | CEC_STATE_INITIATOR_HEADER_INIT_LOW
  | CEC_STATE_INITIATOR_HEADER_INIT_HIGH
  | CEC_STATE_INITIATOR_HEADER_DEST_LOW
  | CEC_STATE_INITIATOR_HEADER_DEST_HIGH
  | CEC_STATE_INITIATOR_DATA_LOW
  | CEC_STATE_INITIATOR_DATA_HIGH
  | CEC_STATE_INITIATOR_EOM_LOW
  | CEC_STATE_INITIATOR_EOM_HIGH
  | CEC_STATE_INITIATOR_ACK_LOW
  | CEC_STATE_INITIATOR_ACK_HIGH
  | CEC_STATE_INITIATOR_ACK_VERIFY

text \<open>
  \<^verbatim>\<open>struct cec_msg_transfer\<close>. The array \<^verbatim>\<open>buf\<close> is a list; a well-formed
  value has \<open>length buf = MAX_CEC_MSG_LEN\<close>. The field \<^verbatim>\<open>bit\<close> is named
  \<open>bit_ofs\<close> here.
\<close>
record cec_msg_transfer =
  buf :: "u8 list"
  bit_ofs :: u8
  byte :: u8

record cec_tx =
  msgt :: cec_msg_transfer
  len :: u8
  resends :: u8
  ack :: u8

text \<open>
  The module's static variables, and the hardware the module writes:
  the level last driven on \<^verbatim>\<open>CEC_GPIO_OUT\<close>, the two counters of the
  multi-function timer with their clock-select fields, and the list of the events
  passed to \<^verbatim>\<open>send_mkbp_event\<close>, one entry for each call, oldest first.
\<close>
record cec_sys =
  cec_state :: cec_state
  cec_tx :: cec_tx
  cec_events :: u32
  apb1_freq_div_10k :: u32
  gpio_out :: int
  tcnt1 :: int
  c1csel :: nat
  tcnt2 :: int
  c2csel :: nat
  mkbp_log :: "u32 list"

section \<open>Timing\<close>

text \<open>
  \<^verbatim>\<open>#define APB1_TICKS(t) ((t) * apb1_freq_div_10k / 100)\<close>: the operand
  \<^verbatim>\<open>apb1_freq_div_10k\<close> is a \<^verbatim>\<open>uint32_t\<close>, so the product and the quotient are
  unsigned 32-bit. The clock basis is the first argument.
\<close>
definition APB1_TICKS :: "u32 \<Rightarrow> u32 \<Rightarrow> u32" where
  "APB1_TICKS f t = t * f div 100"

definition NOMINAL_BIT_TIME :: "u32 \<Rightarrow> u32" where
  "NOMINAL_BIT_TIME f = APB1_TICKS f 2400"

definition FREE_TIME_RS :: "u32 \<Rightarrow> u32" where
  "FREE_TIME_RS f = 3 * NOMINAL_BIT_TIME f"

definition FREE_TIME_NI :: "u32 \<Rightarrow> u32" where
  "FREE_TIME_NI f = 5 * NOMINAL_BIT_TIME f"

definition START_BIT_LOW :: "u32 \<Rightarrow> u32" where
  "START_BIT_LOW f = APB1_TICKS f 3700"

definition START_BIT_HIGH :: "u32 \<Rightarrow> u32" where
  "START_BIT_HIGH f = APB1_TICKS f 800"

definition DATA_ZERO_LOW :: "u32 \<Rightarrow> u32" where
  "DATA_ZERO_LOW f = APB1_TICKS f 1500"

definition DATA_ZERO_HIGH :: "u32 \<Rightarrow> u32" where
  "DATA_ZERO_HIGH f = APB1_TICKS f 900"

definition DATA_ONE_LOW :: "u32 \<Rightarrow> u32" where
  "DATA_ONE_LOW f = APB1_TICKS f 600"

definition DATA_ONE_HIGH :: "u32 \<Rightarrow> u32" where
  "DATA_ONE_HIGH f = APB1_TICKS f 1800"

definition NOMINAL_SAMPLE_TIME :: "u32 \<Rightarrow> u32" where
  "NOMINAL_SAMPLE_TIME f = APB1_TICKS f 1050"

text \<open>\<^verbatim>\<open>DATA_TIME(type, data)\<close>: the data-one value when \<^verbatim>\<open>data\<close> is non-zero.\<close>
definition DATA_HIGH :: "u32 \<Rightarrow> int \<Rightarrow> u32" where
  "DATA_HIGH f data = (if data \<noteq> 0 then DATA_ONE_HIGH f else DATA_ZERO_HIGH f)"

definition DATA_LOW :: "u32 \<Rightarrow> int \<Rightarrow> u32" where
  "DATA_LOW f data = (if data \<noteq> 0 then DATA_ONE_LOW f else DATA_ZERO_LOW f)"

section \<open>The transfer cursor\<close>

text \<open>
  \<^verbatim>\<open>msgt_get_bit\<close>. The shift \<^verbatim>\<open>1 << (7 - msgt->bit)\<close> has a negative count when
  \<^verbatim>\<open>bit\<close> exceeds 7, which C leaves undefined: that is \<open>None\<close>.
\<close>
definition msgt_get_bit :: "cec_msg_transfer \<Rightarrow> int option" where
  "msgt_get_bit m =
     (if unat (byte m) \<ge> MAX_CEC_MSG_LEN then Some 0
      else if unat (bit_ofs m) > 7 then None
      else Some (uint (buf m ! unat (byte m) AND push_bit (7 - unat (bit_ofs m)) 1)))"

definition msgt_inc_bit :: "cec_msg_transfer \<Rightarrow> cec_msg_transfer" where
  "msgt_inc_bit m =
     (let m1 = m\<lparr>bit_ofs := bit_ofs m + 1\<rparr> in
      if bit_ofs m1 = 8 then
        (if unat (byte m1) \<ge> MAX_CEC_MSG_LEN then m1
         else m1\<lparr>bit_ofs := 0, byte := byte m1 + 1\<rparr>)
      else m1)"

definition msgt_is_eom :: "cec_msg_transfer \<Rightarrow> int \<Rightarrow> int" where
  "msgt_is_eom m l =
     (if bit_ofs m \<noteq> 0 then 0
      else if uint (byte m) = l then 1 else 0)"

section \<open>Hardware access and notification\<close>

definition send_mkbp_event :: "u32 \<Rightarrow> cec_sys \<Rightarrow> cec_sys" where
  "send_mkbp_event event s =
     s\<lparr>cec_events := cec_events s OR event, mkbp_log := mkbp_log s @ [event]\<rparr>"

definition tmr_oneshot_start :: "int \<Rightarrow> cec_sys \<Rightarrow> cec_sys" where
  "tmr_oneshot_start timeout s = s\<lparr>tcnt1 := timeout, c1csel := 1\<rparr>"

definition tmr2_start :: "int \<Rightarrow> cec_sys \<Rightarrow> cec_sys" where
  "tmr2_start timeout s = s\<lparr>tcnt2 := timeout, c2csel := 1\<rparr>"

definition tmr2_stop :: "cec_sys \<Rightarrow> cec_sys" where
  "tmr2_stop s = s\<lparr>c2csel := 0\<rparr>"

definition gpio_set_level :: "int \<Rightarrow> cec_sys \<Rightarrow> cec_sys" where
  "gpio_set_level v s = s\<lparr>gpio_out := v\<rparr>"

section \<open>The state machine\<close>

text \<open>
  The \<^verbatim>\<open>switch\<close> of \<^verbatim>\<open>enter_state\<close>: it returns the locals \<^verbatim>\<open>gpio\<close> and
  \<^verbatim>\<open>timeout\<close> (both start at -1) and the state after the case's assignments.
  The second argument is the value \<^verbatim>\<open>gpio_get_level(CEC_GPIO_OUT)\<close> returns when it
  is called (0 for a low line).
\<close>
fun enter_switch :: "cec_state \<Rightarrow> int \<Rightarrow> cec_sys \<Rightarrow> (int \<times> int \<times> cec_sys) option" where
  "enter_switch CEC_STATE_IDLE lvl s =
     Some (-1, -1,
       s\<lparr>cec_tx := (cec_tx s)\<lparr>msgt := (msgt (cec_tx s))\<lparr>bit_ofs := 0, byte := 0\<rparr>\<rparr>\<rparr>)"
| "enter_switch CEC_STATE_INITIATOR_FREE_TIME lvl s =
     Some (1,
       (if resends (cec_tx s) \<noteq> 0 then sint (FREE_TIME_RS (apb1_freq_div_10k s))
        else sint (FREE_TIME_NI (apb1_freq_div_10k s))),
       s)"
| "enter_switch CEC_STATE_INITIATOR_START_LOW lvl s =
     Some (0, sint (START_BIT_LOW (apb1_freq_div_10k s)),
       s\<lparr>cec_tx := (cec_tx s)\<lparr>msgt := (msgt (cec_tx s))\<lparr>bit_ofs := 0, byte := 0\<rparr>\<rparr>\<rparr>)"
| "enter_switch CEC_STATE_INITIATOR_START_HIGH lvl s =
     Some (1, sint (START_BIT_HIGH (apb1_freq_div_10k s)), s)"
| "enter_switch CEC_STATE_INITIATOR_HEADER_INIT_LOW lvl s =
     (case msgt_get_bit (msgt (cec_tx s)) of None \<Rightarrow> None
      | Some d \<Rightarrow> Some (0, sint (DATA_LOW (apb1_freq_div_10k s) d), s))"
| "enter_switch CEC_STATE_INITIATOR_HEADER_DEST_LOW lvl s =
     (case msgt_get_bit (msgt (cec_tx s)) of None \<Rightarrow> None
      | Some d \<Rightarrow> Some (0, sint (DATA_LOW (apb1_freq_div_10k s) d), s))"
| "enter_switch CEC_STATE_INITIATOR_DATA_LOW lvl s =
     (case msgt_get_bit (msgt (cec_tx s)) of None \<Rightarrow> None
      | Some d \<Rightarrow> Some (0, sint (DATA_LOW (apb1_freq_div_10k s) d), s))"
| "enter_switch CEC_STATE_INITIATOR_HEADER_INIT_HIGH lvl s =
     (case msgt_get_bit (msgt (cec_tx s)) of None \<Rightarrow> None
      | Some d \<Rightarrow> Some (1, sint (DATA_HIGH (apb1_freq_div_10k s) d), s))"
| "enter_switch CEC_STATE_INITIATOR_HEADER_DEST_HIGH lvl s =
     (case msgt_get_bit (msgt (cec_tx s)) of None \<Rightarrow> None
      | Some d \<Rightarrow> Some (1, sint (DATA_HIGH (apb1_freq_div_10k s) d), s))"
| "enter_switch CEC_STATE_INITIATOR_DATA_HIGH lvl s =
     (case msgt_get_bit (msgt (cec_tx s)) of None \<Rightarrow> None
      | Some d \<Rightarrow> Some (1, sint (DATA_HIGH (apb1_freq_div_10k s) d), s))"
| "enter_switch CEC_STATE_INITIATOR_EOM_LOW lvl s =
     Some (0,
       sint (DATA_LOW (apb1_freq_div_10k s)
         (msgt_is_eom (msgt (cec_tx s)) (uint (len (cec_tx s))))), s)"
| "enter_switch CEC_STATE_INITIATOR_EOM_HIGH lvl s =
     Some (1,
       sint (DATA_HIGH (apb1_freq_div_10k s)
         (msgt_is_eom (msgt (cec_tx s)) (uint (len (cec_tx s))))), s)"
| "enter_switch CEC_STATE_INITIATOR_ACK_LOW lvl s =
     Some (0, sint (DATA_LOW (apb1_freq_div_10k s) 1), s)"
| "enter_switch CEC_STATE_INITIATOR_ACK_HIGH lvl s =
     Some (1,
       sint ((DATA_ONE_LOW (apb1_freq_div_10k s) + DATA_ZERO_LOW (apb1_freq_div_10k s)) div 2
             - DATA_ONE_LOW (apb1_freq_div_10k s)), s)"
| "enter_switch CEC_STATE_INITIATOR_ACK_VERIFY lvl s =
     (let a1 = (if lvl = 0 then 1 else 0 :: u8);
          a2 = (if buf (msgt (cec_tx s)) ! 0 AND 0x0f = CEC_BROADCAST_ADDR
                then (if a1 = 0 then 1 else 0) else a1)
      in Some (-1,
           sint (NOMINAL_BIT_TIME (apb1_freq_div_10k s)
                 - NOMINAL_SAMPLE_TIME (apb1_freq_div_10k s)),
           s\<lparr>cec_tx := (cec_tx s)\<lparr>ack := a2\<rparr>\<rparr>))"

text \<open>
  The end of \<^verbatim>\<open>enter_state\<close>: the line is driven when \<^verbatim>\<open>gpio\<close> is not
  negative, the one-shot timer started when \<^verbatim>\<open>timeout\<close> is not negative.
\<close>
definition set_outputs :: "int \<Rightarrow> int \<Rightarrow> cec_sys \<Rightarrow> cec_sys" where
  "set_outputs gpio timeout s =
     (let s2 = (if gpio \<ge> 0 then gpio_set_level gpio s else s)
      in if timeout \<ge> 0 then tmr_oneshot_start timeout s2 else s2)"

definition enter_state :: "cec_state \<Rightarrow> int \<Rightarrow> cec_sys \<Rightarrow> cec_sys option" where
  "enter_state new_state lvl s =
     (case enter_switch new_state lvl (s\<lparr>cec_state := new_state\<rparr>) of
        None \<Rightarrow> None
      | Some (gpio, timeout, s1) \<Rightarrow> Some (set_outputs gpio timeout s1))"

text \<open>The call \<^verbatim>\<open>msgt_inc_bit(&cec_tx.msgt)\<close> on the static transfer state.\<close>
definition inc_cursor :: "cec_sys \<Rightarrow> cec_sys" where
  "inc_cursor s = s\<lparr>cec_tx := (cec_tx s)\<lparr>msgt := msgt_inc_bit (msgt (cec_tx s))\<rparr>\<rparr>"

text \<open>
  \<^verbatim>\<open>cec_event_timeout\<close>, with the two event bits and the line level that a
  \<^verbatim>\<open>gpio_get_level\<close> call during this expiry would read.
\<close>
definition cec_event_timeout :: "ec_commands \<Rightarrow> int \<Rightarrow> cec_sys \<Rightarrow> cec_sys option" where
  "cec_event_timeout K lvl s =
     (case cec_state s of
        CEC_STATE_IDLE \<Rightarrow> Some s
      | CEC_STATE_INITIATOR_FREE_TIME \<Rightarrow> enter_state CEC_STATE_INITIATOR_START_LOW lvl s
      | CEC_STATE_INITIATOR_START_LOW \<Rightarrow> enter_state CEC_STATE_INITIATOR_START_HIGH lvl s
      | CEC_STATE_INITIATOR_START_HIGH \<Rightarrow>
          enter_state CEC_STATE_INITIATOR_HEADER_INIT_LOW lvl s
      | CEC_STATE_INITIATOR_HEADER_INIT_LOW \<Rightarrow>
          enter_state CEC_STATE_INITIATOR_HEADER_INIT_HIGH lvl s
      | CEC_STATE_INITIATOR_HEADER_INIT_HIGH \<Rightarrow>
          (let s1 = inc_cursor s in
           if bit_ofs (msgt (cec_tx s1)) = 4
           then enter_state CEC_STATE_INITIATOR_HEADER_DEST_LOW lvl s1
           else enter_state CEC_STATE_INITIATOR_HEADER_INIT_LOW lvl s1)
      | CEC_STATE_INITIATOR_HEADER_DEST_LOW \<Rightarrow>
          enter_state CEC_STATE_INITIATOR_HEADER_DEST_HIGH lvl s
      | CEC_STATE_INITIATOR_HEADER_DEST_HIGH \<Rightarrow>
          (let s1 = inc_cursor s in
           if byte (msgt (cec_tx s1)) = 1
           then enter_state CEC_STATE_INITIATOR_EOM_LOW lvl s1
           else enter_state CEC_STATE_INITIATOR_HEADER_DEST_LOW lvl s1)
      | CEC_STATE_INITIATOR_EOM_LOW \<Rightarrow> enter_state CEC_STATE_INITIATOR_EOM_HIGH lvl s
      | CEC_STATE_INITIATOR_EOM_HIGH \<Rightarrow> enter_state CEC_STATE_INITIATOR_ACK_LOW lvl s
      | CEC_STATE_INITIATOR_ACK_LOW \<Rightarrow> enter_state CEC_STATE_INITIATOR_ACK_HIGH lvl s
      | CEC_STATE_INITIATOR_ACK_HIGH \<Rightarrow> enter_state CEC_STATE_INITIATOR_ACK_VERIFY lvl s
      | CEC_STATE_INITIATOR_ACK_VERIFY \<Rightarrow>
          (if ack (cec_tx s) \<noteq> 0 then
             (if msgt_is_eom (msgt (cec_tx s)) (uint (len (cec_tx s))) = 0
              then enter_state CEC_STATE_INITIATOR_DATA_LOW lvl s
              else map_option (send_mkbp_event (EC_MKBP_CEC_SEND_OK K))
                     (enter_state CEC_STATE_IDLE lvl
                        (s\<lparr>cec_tx := (cec_tx s)\<lparr>len := 0, resends := 0\<rparr>\<rparr>)))
           else
             (if resends (cec_tx s) < CEC_MAX_RESENDS
              then enter_state CEC_STATE_INITIATOR_FREE_TIME lvl
                     (s\<lparr>cec_tx := (cec_tx s)\<lparr>resends := resends (cec_tx s) + 1\<rparr>\<rparr>)
              else map_option (send_mkbp_event (EC_MKBP_CEC_SEND_FAILED K))
                     (enter_state CEC_STATE_IDLE lvl
                        (s\<lparr>cec_tx := (cec_tx s)\<lparr>len := 0, resends := 0\<rparr>\<rparr>))))
      | CEC_STATE_INITIATOR_DATA_LOW \<Rightarrow> enter_state CEC_STATE_INITIATOR_DATA_HIGH lvl s
      | CEC_STATE_INITIATOR_DATA_HIGH \<Rightarrow>
          (let s1 = inc_cursor s in
           if bit_ofs (msgt (cec_tx s1)) = 0
           then enter_state CEC_STATE_INITIATOR_EOM_LOW lvl s1
           else enter_state CEC_STATE_INITIATOR_DATA_LOW lvl s1))"

definition cec_event_tx :: "int \<Rightarrow> cec_sys \<Rightarrow> cec_sys option" where
  "cec_event_tx lvl s = enter_state CEC_STATE_INITIATOR_FREE_TIME lvl s"

text \<open>
  \<^verbatim>\<open>cec_isr\<close>. The pending bits \<^verbatim>\<open>TCPND\<close> (timer expiry) and \<^verbatim>\<open>TDPND\<close> (start
  trigger) of the event register are the two booleans.
\<close>
definition cec_isr :: "ec_commands \<Rightarrow> bool \<Rightarrow> bool \<Rightarrow> int \<Rightarrow> cec_sys \<Rightarrow> cec_sys option" where
  "cec_isr K tcpnd tdpnd lvl s =
     (case (if tcpnd then cec_event_timeout K lvl s else Some s) of
        None \<Rightarrow> None
      | Some s1 \<Rightarrow> (if tdpnd then cec_event_tx lvl (tmr2_stop s1) else Some s1))"

text \<open>
  \<^verbatim>\<open>cec_send\<close>. \<^verbatim>\<open>memcpy\<close> writes \<^verbatim>\<open>len\<close> bytes: past the end of the 16-byte
  buffer, or read past the end of the caller's bytes, that is undefined in C
  (\<open>None\<close>). The result is the C return value with the new state.
\<close>
definition cec_send :: "u8 list \<Rightarrow> u8 \<Rightarrow> cec_sys \<Rightarrow> (int \<times> cec_sys) option" where
  "cec_send msg l s =
     (if len (cec_tx s) \<noteq> 0 then Some (-1, s)
      else if unat l > MAX_CEC_MSG_LEN \<or> unat l > length msg then None
      else Some (0,
        tmr2_start 0
          (s\<lparr>cec_tx := (cec_tx s)
               \<lparr>len := l,
                msgt := (msgt (cec_tx s))
                  \<lparr>buf := take (unat l) msg @ drop (unat l) (buf (msgt (cec_tx s)))\<rparr>\<rparr>\<rparr>)))"

text \<open>\<^verbatim>\<open>hc_cec_write\<close>: \<^verbatim>\<open>params_size\<close> is the int, \<^verbatim>\<open>params->msg\<close> the bytes.\<close>
definition hc_cec_write :: "u8 list \<Rightarrow> int \<Rightarrow> cec_sys \<Rightarrow> (ec_status \<times> cec_sys) option" where
  "hc_cec_write msg params_size s =
     (if params_size = 0 \<or> params_size > int MAX_CEC_MSG_LEN then Some (EC_RES_INVALID_PARAM, s)
      else (case cec_send msg (word_of_int params_size) s of
              None \<Rightarrow> None
            | Some (r, s1) \<Rightarrow> Some (if r \<noteq> 0 then EC_RES_BUSY else EC_RES_SUCCESS, s1)))"

text \<open>
  \<^verbatim>\<open>cec_init\<close>, as far as the static variables go: the clock basis is the APB1
  frequency divided by 10000. The argument is what \<^verbatim>\<open>clock_get_apb1_freq()\<close>
  returns, a 32-bit value (a non-negative \<^verbatim>\<open>int\<close> divides the same way).
\<close>
definition cec_init :: "u32 \<Rightarrow> cec_sys \<Rightarrow> cec_sys" where
  "cec_init freq s = s\<lparr>apb1_freq_div_10k := freq div 10000\<rparr>"

section \<open>Driving the machine\<close>

text \<open>
  The static variables as C zero-initialises them, with the clock basis \<open>f\<close> that
  \<^verbatim>\<open>cec_init\<close> stores, both timers stopped and the line released.
\<close>
definition cec_boot :: "u32 \<Rightarrow> cec_sys" where
  "cec_boot f =
     \<lparr>cec_state = CEC_STATE_IDLE,
      cec_tx = \<lparr>msgt = \<lparr>buf = replicate MAX_CEC_MSG_LEN 0, bit_ofs = 0, byte = 0\<rparr>,
                len = 0, resends = 0, ack = 0\<rparr>,
      cec_events = 0, apb1_freq_div_10k = f, gpio_out = 1,
      tcnt1 = 0, c1csel = 0, tcnt2 = 0, c2csel = 0, mkbp_log = []\<rparr>"

text \<open>\<open>n\<close> timer expiries in a row, the line reading \<open>lvl\<close> at each of them.\<close>
primrec timeouts :: "ec_commands \<Rightarrow> nat \<Rightarrow> int \<Rightarrow> cec_sys \<Rightarrow> cec_sys option" where
  "timeouts K 0 lvl s = Some s"
| "timeouts K (Suc n) lvl s =
     (case cec_event_timeout K lvl s of None \<Rightarrow> None | Some s1 \<Rightarrow> timeouts K n lvl s1)"

text \<open>
  A line level that acknowledges a frame whose header byte is \<open>hdr\<close>: low for a
  direct address, high for the broadcast address.
\<close>
definition acknowledged :: "u8 \<Rightarrow> int \<Rightarrow> bool" where
  "acknowledged hdr lvl = (if hdr AND 0x0f = CEC_BROADCAST_ADDR then lvl \<noteq> 0 else lvl = 0)"

text \<open>
  The states entered by \<open>n\<close> timer expiries in a row, oldest first (the list ends
  early if an expiry has no defined result).
\<close>
primrec visited :: "ec_commands \<Rightarrow> nat \<Rightarrow> int \<Rightarrow> cec_sys \<Rightarrow> cec_state list" where
  "visited K 0 lvl s = []"
| "visited K (Suc n) lvl s =
     (case cec_event_timeout K lvl s of None \<Rightarrow> []
      | Some s1 \<Rightarrow> cec_state s1 # visited K n lvl s1)"

text \<open>
  The states of one frame that carries the header byte only: start bit, four
  initiator bits, four destination bits, end-of-message bit, acknowledge bit.
\<close>
definition header_frame :: "cec_state list" where
  "header_frame =
     [CEC_STATE_INITIATOR_START_LOW, CEC_STATE_INITIATOR_START_HIGH] @
     concat (replicate 4
       [CEC_STATE_INITIATOR_HEADER_INIT_LOW, CEC_STATE_INITIATOR_HEADER_INIT_HIGH]) @
     concat (replicate 4
       [CEC_STATE_INITIATOR_HEADER_DEST_LOW, CEC_STATE_INITIATOR_HEADER_DEST_HIGH]) @
     [CEC_STATE_INITIATOR_EOM_LOW, CEC_STATE_INITIATOR_EOM_HIGH,
      CEC_STATE_INITIATOR_ACK_LOW, CEC_STATE_INITIATOR_ACK_HIGH,
      CEC_STATE_INITIATOR_ACK_VERIFY]"

text \<open>
  What no expiry but the last of a transfer touches: the pending events, the list
  of notifications, the clock basis and timer 2.
\<close>
definition carried :: "cec_sys \<Rightarrow> u32 \<times> u32 list \<times> u32 \<times> int \<times> nat" where
  "carried s = (cec_events s, mkbp_log s, apb1_freq_div_10k s, tcnt2 s, c2csel s)"

text \<open>
  The outputs after each of \<open>n\<close> timer expiries in a row, oldest first: the level
  driven on the line, the count loaded into timer 1 and its clock-select field.
\<close>
primrec outputs :: "ec_commands \<Rightarrow> nat \<Rightarrow> int \<Rightarrow> cec_sys \<Rightarrow> (int \<times> int \<times> nat) list" where
  "outputs K 0 lvl s = []"
| "outputs K (Suc n) lvl s =
     (case cec_event_timeout K lvl s of None \<Rightarrow> []
      | Some s1 \<Rightarrow> (gpio_out s1, tcnt1 s1, c1csel s1) # outputs K n lvl s1)"

text \<open>
  The states of one data block: eight data bits, end-of-message bit, acknowledge
  bit.
\<close>
definition data_block :: "cec_state list" where
  "data_block =
     concat (replicate 8 [CEC_STATE_INITIATOR_DATA_LOW, CEC_STATE_INITIATOR_DATA_HIGH]) @
     [CEC_STATE_INITIATOR_EOM_LOW, CEC_STATE_INITIATOR_EOM_HIGH,
      CEC_STATE_INITIATOR_ACK_LOW, CEC_STATE_INITIATOR_ACK_HIGH,
      CEC_STATE_INITIATOR_ACK_VERIFY]"

text \<open>
  The line protocol in the spec's words, as the expected outputs. Bit \<open>i\<close> of a
  byte, most significant first; a bit is a low phase then a high phase, with the
  data-one or the data-zero durations; a byte is its eight bits; after each byte
  come the end-of-message bit \<open>e\<close> and the acknowledge bit, which the initiator
  sends as a one whose high phase it cuts at the sample point, waiting then for
  the end of the nominal bit period. A timer count that is negative as an
  \<^verbatim>\<open>int\<close> is not loaded: the count loaded before stays.
\<close>
definition bit_of :: "u8 \<Rightarrow> nat \<Rightarrow> int" where
  "bit_of b i = uint (b AND push_bit (7 - i) 1)"

definition bit_times :: "u32 \<Rightarrow> int \<Rightarrow> (int \<times> int \<times> nat) list" where
  "bit_times f d = [(0, sint (DATA_LOW f d), 1), (1, sint (DATA_HIGH f d), 1)]"

definition byte_times :: "u32 \<Rightarrow> u8 \<Rightarrow> (int \<times> int \<times> nat) list" where
  "byte_times f b =
     bit_times f (bit_of b 0) @ bit_times f (bit_of b 1) @ bit_times f (bit_of b 2) @
     bit_times f (bit_of b 3) @ bit_times f (bit_of b 4) @ bit_times f (bit_of b 5) @
     bit_times f (bit_of b 6) @ bit_times f (bit_of b 7)"

definition ack_high_ticks :: "u32 \<Rightarrow> int" where
  "ack_high_ticks f =
     (if 0 \<le> sint ((DATA_ONE_LOW f + DATA_ZERO_LOW f) div 2 - DATA_ONE_LOW f)
      then sint ((DATA_ONE_LOW f + DATA_ZERO_LOW f) div 2 - DATA_ONE_LOW f)
      else sint (DATA_LOW f 1))"

definition ack_verify_ticks :: "u32 \<Rightarrow> int" where
  "ack_verify_ticks f =
     (if 0 \<le> sint (NOMINAL_BIT_TIME f - NOMINAL_SAMPLE_TIME f)
      then sint (NOMINAL_BIT_TIME f - NOMINAL_SAMPLE_TIME f)
      else ack_high_ticks f)"

definition eom_ack_times :: "u32 \<Rightarrow> int \<Rightarrow> (int \<times> int \<times> nat) list" where
  "eom_ack_times f e =
     bit_times f e @
     [(0, sint (DATA_LOW f 1), 1), (1, ack_high_ticks f, 1), (1, ack_verify_ticks f, 1)]"

text \<open>The start bit, then the header byte with its end-of-message and acknowledge bits.\<close>
definition header_frame_times :: "u32 \<Rightarrow> u8 \<Rightarrow> int \<Rightarrow> (int \<times> int \<times> nat) list" where
  "header_frame_times f hdr e =
     [(0, sint (START_BIT_LOW f), 1), (1, sint (START_BIT_HIGH f), 1)] @
     byte_times f hdr @ eom_ack_times f e"

text \<open>The bytes of a message in order; the end-of-message bit is 1 after the last.\<close>
primrec message_times :: "u32 \<Rightarrow> u8 list \<Rightarrow> (int \<times> int \<times> nat) list" where
  "message_times f [] = []"
| "message_times f (b # bs) =
     byte_times f b @ eom_ack_times f (if bs = [] then 1 else 0) @ message_times f bs"

section \<open>Reachable states\<close>

text \<open>
  The states the module can be in: after start-up, after a host write command (the
  host command layer passes the number of parameter bytes, never a negative
  number), and after a run of the interrupt handler. The start trigger can only
  be pending while timer 2 runs; a timer expiry may be pending at any time.
\<close>
inductive cec_reach :: "ec_commands \<Rightarrow> cec_sys \<Rightarrow> bool" for K :: ec_commands where
  reach_boot: "cec_reach K (cec_boot f)"
| reach_write:
    "cec_reach K s \<Longrightarrow> 0 \<le> params_size \<Longrightarrow>
     hc_cec_write msg params_size s = Some (r, s') \<Longrightarrow> cec_reach K s'"
| reach_isr:
    "cec_reach K s \<Longrightarrow> (tdpnd \<longrightarrow> c2csel s \<noteq> 0) \<Longrightarrow>
     cec_isr K tcpnd tdpnd lvl s = Some s' \<Longrightarrow> cec_reach K s'"

text \<open>
  Where the cursor can be in each state, as natural numbers: bit offset, byte
  offset, stored length.
\<close>
fun cursor_ok :: "cec_state \<Rightarrow> nat \<Rightarrow> nat \<Rightarrow> nat \<Rightarrow> bool" where
  "cursor_ok CEC_STATE_IDLE b y l = (b = 0 \<and> y = 0)"
| "cursor_ok CEC_STATE_INITIATOR_FREE_TIME b y l = (b \<le> 7 \<and> y \<le> l)"
| "cursor_ok CEC_STATE_INITIATOR_START_LOW b y l = (b = 0 \<and> y = 0)"
| "cursor_ok CEC_STATE_INITIATOR_START_HIGH b y l = (b = 0 \<and> y = 0)"
| "cursor_ok CEC_STATE_INITIATOR_HEADER_INIT_LOW b y l = (b \<le> 3 \<and> y = 0)"
| "cursor_ok CEC_STATE_INITIATOR_HEADER_INIT_HIGH b y l = (b \<le> 3 \<and> y = 0)"
| "cursor_ok CEC_STATE_INITIATOR_HEADER_DEST_LOW b y l = (4 \<le> b \<and> b \<le> 7 \<and> y = 0)"
| "cursor_ok CEC_STATE_INITIATOR_HEADER_DEST_HIGH b y l = (4 \<le> b \<and> b \<le> 7 \<and> y = 0)"
| "cursor_ok CEC_STATE_INITIATOR_DATA_LOW b y l = (b \<le> 7 \<and> 1 \<le> y \<and> y < l)"
| "cursor_ok CEC_STATE_INITIATOR_DATA_HIGH b y l = (b \<le> 7 \<and> 1 \<le> y \<and> y < l)"
| "cursor_ok CEC_STATE_INITIATOR_EOM_LOW b y l = (b = 0 \<and> 1 \<le> y \<and> y \<le> l)"
| "cursor_ok CEC_STATE_INITIATOR_EOM_HIGH b y l = (b = 0 \<and> 1 \<le> y \<and> y \<le> l)"
| "cursor_ok CEC_STATE_INITIATOR_ACK_LOW b y l = (b = 0 \<and> 1 \<le> y \<and> y \<le> l)"
| "cursor_ok CEC_STATE_INITIATOR_ACK_HIGH b y l = (b = 0 \<and> 1 \<le> y \<and> y \<le> l)"
| "cursor_ok CEC_STATE_INITIATOR_ACK_VERIFY b y l = (b = 0 \<and> 1 \<le> y \<and> y \<le> l)"

text \<open>
  The invariant of the reachable states: the buffer has its 16 bytes, the stored
  length and the resend counter are in range, the cursor is where the state allows,
  a transfer is in progress in every state but Idle, and in Idle the start trigger
  is armed exactly when a message is stored.
\<close>
definition cec_inv :: "cec_sys \<Rightarrow> bool" where
  "cec_inv s =
     (length (buf (msgt (cec_tx s))) = MAX_CEC_MSG_LEN \<and>
      unat (len (cec_tx s)) \<le> MAX_CEC_MSG_LEN \<and>
      unat (resends (cec_tx s)) \<le> 5 \<and>
      cursor_ok (cec_state s) (unat (bit_ofs (msgt (cec_tx s))))
        (unat (byte (msgt (cec_tx s)))) (unat (len (cec_tx s))) \<and>
      (if cec_state s = CEC_STATE_IDLE
       then ((c2csel s = 0) = (len (cec_tx s) = 0)) \<and> resends (cec_tx s) = 0
       else c2csel s = 0 \<and> len (cec_tx s) \<noteq> 0))"

section \<open>Timing facts\<close>

lemma unat_APB1_TICKS:
  assumes "unat t * unat f < 2 ^ 32"
  shows "unat (APB1_TICKS f t) = unat t * unat f div 100"
proof -
  from assms have "unat (t * f) = unat t * unat f"
    using unat_mult_lem [of t f] by simp
  then show ?thesis by (simp add: APB1_TICKS_def unat_div)
qed

lemma APB1_TICKS_le: "unat (APB1_TICKS f t) \<le> 42949672"
proof -
  have "unat (t * f) < 2 ^ 32" using unsigned_less [of "t * f"] by simp
  then show ?thesis by (simp add: APB1_TICKS_def unat_div)
qed

lemma sint_small:
  fixes w :: u32
  assumes "unat w \<le> 214748360"
  shows "sint w = int (unat w)"
proof -
  have "int (unat w) \<le> 214748360" using assms by linarith
  then have u: "uint w \<le> 214748360" by simp
  have "sint w = signed_take_bit 31 (uint w)" by (simp add: sint_uint)
  also have "\<dots> = uint w"
  proof (rule signed_take_bit_int_eq_self)
    have "- (2 ^ 31) \<le> (0::int)" by simp
    also have "(0::int) \<le> uint w" by (rule uint_nonnegative)
    finally show "- (2 ^ 31) \<le> uint w" .
    show "uint w < 2 ^ 31" using u by simp
  qed
  finally show ?thesis by simp
qed

lemma NOMINAL_BIT_TIME_le: "unat (NOMINAL_BIT_TIME f) \<le> 42949672"
  by (simp add: NOMINAL_BIT_TIME_def APB1_TICKS_le)

lemma unat_FREE_TIME_RS: "unat (FREE_TIME_RS f) = 3 * unat (NOMINAL_BIT_TIME f)"
proof -
  have "unat (3 :: u32) * unat (NOMINAL_BIT_TIME f) < 2 ^ LENGTH(32)"
    using NOMINAL_BIT_TIME_le [of f] by simp
  then have "unat (3 * NOMINAL_BIT_TIME f) = unat (3 :: u32) * unat (NOMINAL_BIT_TIME f)"
    by (simp only: unat_mult_lem)
  then show ?thesis by (simp add: FREE_TIME_RS_def)
qed

lemma unat_FREE_TIME_NI: "unat (FREE_TIME_NI f) = 5 * unat (NOMINAL_BIT_TIME f)"
proof -
  have "unat (5 :: u32) * unat (NOMINAL_BIT_TIME f) < 2 ^ LENGTH(32)"
    using NOMINAL_BIT_TIME_le [of f] by simp
  then have "unat (5 * NOMINAL_BIT_TIME f) = unat (5 :: u32) * unat (NOMINAL_BIT_TIME f)"
    by (simp only: unat_mult_lem)
  then show ?thesis by (simp add: FREE_TIME_NI_def)
qed

lemma free_time_nonneg:
  "0 \<le> sint (FREE_TIME_RS f)" "0 \<le> sint (FREE_TIME_NI f)"
proof -
  have "unat (FREE_TIME_RS f) \<le> 214748360"
    using NOMINAL_BIT_TIME_le [of f] by (simp add: unat_FREE_TIME_RS)
  then show "0 \<le> sint (FREE_TIME_RS f)" by (simp add: sint_small)
  have "unat (FREE_TIME_NI f) \<le> 214748360"
    using NOMINAL_BIT_TIME_le [of f] by (simp add: unat_FREE_TIME_NI)
  then show "0 \<le> sint (FREE_TIME_NI f)" by (simp add: sint_small)
qed

lemma enter_free_time:
  "enter_state CEC_STATE_INITIATOR_FREE_TIME lvl s =
     Some (s\<lparr>cec_state := CEC_STATE_INITIATOR_FREE_TIME, gpio_out := 1,
             tcnt1 := (if resends (cec_tx s) = 0
                       then sint (FREE_TIME_NI (apb1_freq_div_10k s))
                       else sint (FREE_TIME_RS (apb1_freq_div_10k s))),
             c1csel := 1\<rparr>)"
  by (simp add: enter_state_def set_outputs_def gpio_set_level_def tmr_oneshot_start_def
      free_time_nonneg)

lemma FREE_TIME_RS_less_NI: "(FREE_TIME_RS f < FREE_TIME_NI f) = (NOMINAL_BIT_TIME f \<noteq> 0)"
  by (simp add: word_less_nat_alt unat_FREE_TIME_RS unat_FREE_TIME_NI unat_gt_0 [symmetric])

lemma unat_NOMINAL_BIT_TIME:
  "2400 * unat f < 2 ^ 32 \<Longrightarrow> unat (NOMINAL_BIT_TIME f) = 24 * unat f"
  by (simp add: NOMINAL_BIT_TIME_def unat_APB1_TICKS)

lemma free_time_order:
  assumes "0 < unat f" and "2400 * unat f < 2 ^ 32"
  shows "FREE_TIME_RS f < FREE_TIME_NI f \<and>
         sint (FREE_TIME_RS f) = 72 * int (unat f) \<and>
         sint (FREE_TIME_NI f) = 120 * int (unat f)"
proof (intro conjI)
  from assms have n: "unat (NOMINAL_BIT_TIME f) = 24 * unat f"
    by (simp add: unat_NOMINAL_BIT_TIME)
  with assms have "unat (NOMINAL_BIT_TIME f) \<noteq> 0" by simp
  then have "NOMINAL_BIT_TIME f \<noteq> 0" by (simp add: unat_eq_0)
  then show "FREE_TIME_RS f < FREE_TIME_NI f" by (simp add: FREE_TIME_RS_less_NI)
  have "unat (FREE_TIME_RS f) \<le> 214748360"
    using NOMINAL_BIT_TIME_le [of f] by (simp add: unat_FREE_TIME_RS)
  then show "sint (FREE_TIME_RS f) = 72 * int (unat f)"
    using n by (simp add: sint_small unat_FREE_TIME_RS)
  have "unat (FREE_TIME_NI f) \<le> 214748360"
    using NOMINAL_BIT_TIME_le [of f] by (simp add: unat_FREE_TIME_NI)
  then show "sint (FREE_TIME_NI f) = 120 * int (unat f)"
    using n by (simp add: sint_small unat_FREE_TIME_NI)
qed

text \<open>What \<^verbatim>\<open>cec_init\<close> stores is at most \<open>(2 ^ 32 - 1) div 10000\<close>.\<close>
lemma stored_basis_le: "unat (apb1_freq_div_10k (cec_init freq s)) \<le> 429496"
proof -
  have "unat freq < 2 ^ 32" using unsigned_less [of freq] by simp
  then show ?thesis by (simp add: cec_init_def unat_div)
qed

section \<open>Symbolic execution of the state machine\<close>

lemma set_outputs_proj [simp]:
  "cec_state (set_outputs g t s) = cec_state s"
  "cec_tx (set_outputs g t s) = cec_tx s"
  "cec_events (set_outputs g t s) = cec_events s"
  "apb1_freq_div_10k (set_outputs g t s) = apb1_freq_div_10k s"
  "tcnt2 (set_outputs g t s) = tcnt2 s"
  "c2csel (set_outputs g t s) = c2csel s"
  "mkbp_log (set_outputs g t s) = mkbp_log s"
  by (simp_all add: set_outputs_def Let_def gpio_set_level_def tmr_oneshot_start_def)

lemma set_outputs_out [simp]:
  "gpio_out (set_outputs g t s) = (if 0 \<le> g then g else gpio_out s)"
  "tcnt1 (set_outputs g t s) = (if 0 \<le> t then t else tcnt1 s)"
  "c1csel (set_outputs g t s) = (if 0 \<le> t then 1 else c1csel s)"
  by (simp_all add: set_outputs_def Let_def gpio_set_level_def tmr_oneshot_start_def)

lemma sint_APB1_TICKS_nonneg [simp]: "0 \<le> sint (APB1_TICKS f t)"
proof -
  have "unat (APB1_TICKS f t) \<le> 214748360" using APB1_TICKS_le [of f t] by simp
  then show ?thesis by (simp add: sint_small)
qed

lemma sint_times_nonneg [simp]:
  "0 \<le> sint (START_BIT_LOW f)" "0 \<le> sint (START_BIT_HIGH f)"
  "0 \<le> sint (DATA_LOW f d)" "0 \<le> sint (DATA_HIGH f d)"
  by (simp_all add: START_BIT_LOW_def START_BIT_HIGH_def DATA_LOW_def DATA_HIGH_def
      DATA_ONE_LOW_def DATA_ZERO_LOW_def DATA_ONE_HIGH_def DATA_ZERO_HIGH_def)

lemma timeouts_add:
  "timeouts K (m + n) lvl s =
     (case timeouts K m lvl s of None \<Rightarrow> None | Some s1 \<Rightarrow> timeouts K n lvl s1)"
  by (induction m arbitrary: s) (simp_all split: option.splits)

lemma timeouts_numeral:
  "timeouts K (numeral n) lvl s =
     (case cec_event_timeout K lvl s of None \<Rightarrow> None
      | Some s1 \<Rightarrow> timeouts K (pred_numeral n) lvl s1)"
  by (simp add: numeral_eq_Suc)

lemma visited_numeral:
  "visited K (numeral n) lvl s =
     (case cec_event_timeout K lvl s of None \<Rightarrow> []
      | Some s1 \<Rightarrow> cec_state s1 # visited K (pred_numeral n) lvl s1)"
  by (simp add: numeral_eq_Suc)

lemma visited_add:
  "visited K (m + n) lvl s =
     visited K m lvl s @
       (case timeouts K m lvl s of None \<Rightarrow> [] | Some s1 \<Rightarrow> visited K n lvl s1)"
  by (induction m arbitrary: s) (simp_all split: option.splits)

lemma outputs_numeral:
  "outputs K (numeral n) lvl s =
     (case cec_event_timeout K lvl s of None \<Rightarrow> []
      | Some s1 \<Rightarrow> (gpio_out s1, tcnt1 s1, c1csel s1) # outputs K (pred_numeral n) lvl s1)"
  by (simp add: numeral_eq_Suc)

lemma outputs_add:
  "outputs K (m + n) lvl s =
     outputs K m lvl s @
       (case timeouts K m lvl s of None \<Rightarrow> [] | Some s1 \<Rightarrow> outputs K n lvl s1)"
  by (induction m arbitrary: s) (simp_all split: option.splits)

lemma header_frame_eq:
  "header_frame =
     [CEC_STATE_INITIATOR_START_LOW, CEC_STATE_INITIATOR_START_HIGH,
      CEC_STATE_INITIATOR_HEADER_INIT_LOW, CEC_STATE_INITIATOR_HEADER_INIT_HIGH,
      CEC_STATE_INITIATOR_HEADER_INIT_LOW, CEC_STATE_INITIATOR_HEADER_INIT_HIGH,
      CEC_STATE_INITIATOR_HEADER_INIT_LOW, CEC_STATE_INITIATOR_HEADER_INIT_HIGH,
      CEC_STATE_INITIATOR_HEADER_INIT_LOW, CEC_STATE_INITIATOR_HEADER_INIT_HIGH,
      CEC_STATE_INITIATOR_HEADER_DEST_LOW, CEC_STATE_INITIATOR_HEADER_DEST_HIGH,
      CEC_STATE_INITIATOR_HEADER_DEST_LOW, CEC_STATE_INITIATOR_HEADER_DEST_HIGH,
      CEC_STATE_INITIATOR_HEADER_DEST_LOW, CEC_STATE_INITIATOR_HEADER_DEST_HIGH,
      CEC_STATE_INITIATOR_HEADER_DEST_LOW, CEC_STATE_INITIATOR_HEADER_DEST_HIGH,
      CEC_STATE_INITIATOR_EOM_LOW, CEC_STATE_INITIATOR_EOM_HIGH,
      CEC_STATE_INITIATOR_ACK_LOW, CEC_STATE_INITIATOR_ACK_HIGH,
      CEC_STATE_INITIATOR_ACK_VERIFY]"
  by (simp add: header_frame_def numeral_eq_Suc)

lemma data_block_eq:
  "data_block =
     [CEC_STATE_INITIATOR_DATA_LOW, CEC_STATE_INITIATOR_DATA_HIGH,
      CEC_STATE_INITIATOR_DATA_LOW, CEC_STATE_INITIATOR_DATA_HIGH,
      CEC_STATE_INITIATOR_DATA_LOW, CEC_STATE_INITIATOR_DATA_HIGH,
      CEC_STATE_INITIATOR_DATA_LOW, CEC_STATE_INITIATOR_DATA_HIGH,
      CEC_STATE_INITIATOR_DATA_LOW, CEC_STATE_INITIATOR_DATA_HIGH,
      CEC_STATE_INITIATOR_DATA_LOW, CEC_STATE_INITIATOR_DATA_HIGH,
      CEC_STATE_INITIATOR_DATA_LOW, CEC_STATE_INITIATOR_DATA_HIGH,
      CEC_STATE_INITIATOR_DATA_LOW, CEC_STATE_INITIATOR_DATA_HIGH,
      CEC_STATE_INITIATOR_EOM_LOW, CEC_STATE_INITIATOR_EOM_HIGH,
      CEC_STATE_INITIATOR_ACK_LOW, CEC_STATE_INITIATOR_ACK_HIGH,
      CEC_STATE_INITIATOR_ACK_VERIFY]"
  by (simp add: data_block_def numeral_eq_Suc)

lemma idle_not_in_frames:
  "CEC_STATE_IDLE \<notin> set (header_frame @ concat (replicate n data_block))"
  by (auto simp: header_frame_eq data_block_eq)

lemma data_not_in_header_frames:
  "CEC_STATE_INITIATOR_DATA_LOW \<notin>
     set (concat (replicate n (header_frame @ [CEC_STATE_INITIATOR_FREE_TIME])) @
          header_frame @ [CEC_STATE_IDLE])"
  by (auto simp: header_frame_eq)

lemma six_start_bits:
  "count_list (concat (replicate 5 (header_frame @ [CEC_STATE_INITIATOR_FREE_TIME])) @
             header_frame @ [CEC_STATE_IDLE]) CEC_STATE_INITIATOR_START_LOW = 6"
  by (simp add: header_frame_eq numeral_eq_Suc)

lemma uint_eq_iff: "(uint (a :: u8) = uint b) = (a = b)"
  by (simp add: word_uint_eq_iff)

lemma uint_eq_1: "(uint (x :: u8) = 1) = (x = 1)"
  using word_uint_eq_iff [of x 1] by simp

lemma get_bit_in_range:
  "unat (byte m) < 16 \<Longrightarrow> unat (bit_ofs m) \<le> 7 \<Longrightarrow>
   msgt_get_bit m = Some (bit_of (buf m ! unat (byte m)) (unat (bit_ofs m)))"
  by (simp add: msgt_get_bit_def bit_of_def MAX_CEC_MSG_LEN_def)

lemma get_bit_below_capacity:
  "unat (byte m) < MAX_CEC_MSG_LEN \<Longrightarrow> unat (bit_ofs m) \<le> 7 \<Longrightarrow>
   msgt_get_bit m = Some (uint (buf m ! unat (byte m) AND push_bit (7 - unat (bit_ofs m)) 1))"
  by (simp add: msgt_get_bit_def)

lemma unat_byte_Suc:
  fixes k :: u8
  assumes "unat k < 16"
  shows "unat (k + 1) = Suc (unat k)"
  using assms by (simp add: unat_word_ariths)

lemma unat_of_nat_small:
  "n \<le> 16 \<Longrightarrow> unat (of_nat n :: u8) = n"
  by (simp add: unat_of_nat)

lemma unat_params_size:
  assumes "n \<le> 16"
  shows "unat (word_of_int (int n) :: u8) = n"
proof -
  have "(word_of_int (int n) :: u8) = of_nat n" by simp
  moreover have "unat (of_nat n :: u8) = n"
    using assms by (simp add: unat_of_nat)
  ultimately show ?thesis by simp
qed

lemma admission:
  assumes "len (cec_tx s) = 0"
    and "length (buf (msgt (cec_tx s))) = MAX_CEC_MSG_LEN"
    and "1 \<le> length msg" and "length msg \<le> 16"
  shows "hc_cec_write msg (int (length msg)) s =
           Some (EC_RES_SUCCESS,
             s\<lparr>cec_tx := (cec_tx s)
                  \<lparr>len := word_of_int (int (length msg)),
                   msgt := (msgt (cec_tx s))
                     \<lparr>buf := msg @ drop (length msg) (buf (msgt (cec_tx s)))\<rparr>\<rparr>,
               tcnt2 := 0, c2csel := 1\<rparr>)"
proof -
  from assms(3) have "msg \<noteq> []" by auto
  then show ?thesis
    using assms unat_params_size [of "length msg"]
    by (simp add: hc_cec_write_def cec_send_def tmr2_start_def MAX_CEC_MSG_LEN_def)
qed

lemma start_trigger:
  "cec_isr K False True lvl s =
     Some (s\<lparr>cec_state := CEC_STATE_INITIATOR_FREE_TIME, gpio_out := 1,
             tcnt1 := (if resends (cec_tx s) = 0
                       then sint (FREE_TIME_NI (apb1_freq_div_10k s))
                       else sint (FREE_TIME_RS (apb1_freq_div_10k s))),
             c1csel := 1, c2csel := 0\<rparr>)"
  by (simp add: cec_isr_def cec_event_tx_def tmr2_stop_def enter_free_time)

lemma start_low_step:
  assumes "cec_state s = CEC_STATE_INITIATOR_FREE_TIME"
  shows "\<exists>s'. cec_event_timeout K lvl s = Some s' \<and>
           cec_state s' = CEC_STATE_INITIATOR_START_LOW \<and>
           cec_tx s' = (cec_tx s)\<lparr>msgt := (msgt (cec_tx s))\<lparr>bit_ofs := 0, byte := 0\<rparr>\<rparr>"
  using assms by (simp add: cec_event_timeout_def enter_state_def)

text \<open>From FreeTime to the acknowledge sample of the header block: 23 expiries.\<close>
lemma header_attempt:
  assumes "cec_state s = CEC_STATE_INITIATOR_FREE_TIME"
  shows "\<exists>s'. timeouts K 23 lvl s = Some s' \<and>
           visited K 23 lvl s = header_frame \<and>
           outputs K 23 lvl s =
             header_frame_times (apb1_freq_div_10k s) (buf (msgt (cec_tx s)) ! 0)
               (if len (cec_tx s) = 1 then 1 else 0) \<and>
           cec_state s' = CEC_STATE_INITIATOR_ACK_VERIFY \<and>
           cec_tx s' = (cec_tx s)
             \<lparr>ack := (if acknowledged (buf (msgt (cec_tx s)) ! 0) lvl then 1 else 0),
              msgt := (msgt (cec_tx s))\<lparr>bit_ofs := 0, byte := 1\<rparr>\<rparr> \<and>
           carried s' = carried s \<and>
           gpio_out s' = 1 \<and> tcnt1 s' = ack_verify_ticks (apb1_freq_div_10k s) \<and>
           c1csel s' = 1"
  using assms
  by (simp add: timeouts_numeral visited_numeral outputs_numeral header_frame_eq
      header_frame_times_def byte_times_def bit_times_def eom_ack_times_def
      ack_high_ticks_def ack_verify_ticks_def uint_eq_1
      cec_event_timeout_def enter_state_def get_bit_in_range msgt_is_eom_def
      msgt_inc_bit_def inc_cursor_def Let_def MAX_CEC_MSG_LEN_def carried_def
      acknowledged_def)

text \<open>From an acknowledged sample to the sample of the next data block: 21 expiries.\<close>
lemma data_block_step:
  assumes "cec_state s = CEC_STATE_INITIATOR_ACK_VERIFY"
    and "ack (cec_tx s) = 1"
    and "bit_ofs (msgt (cec_tx s)) = 0"
    and "byte (msgt (cec_tx s)) \<noteq> len (cec_tx s)"
    and "unat (byte (msgt (cec_tx s))) < 16"
  shows "\<exists>s'. timeouts K 21 lvl s = Some s' \<and>
           visited K 21 lvl s = data_block \<and>
           outputs K 21 lvl s =
             byte_times (apb1_freq_div_10k s)
               (buf (msgt (cec_tx s)) ! unat (byte (msgt (cec_tx s)))) @
             eom_ack_times (apb1_freq_div_10k s)
               (if byte (msgt (cec_tx s)) + 1 = len (cec_tx s) then 1 else 0) \<and>
           cec_state s' = CEC_STATE_INITIATOR_ACK_VERIFY \<and>
           cec_tx s' = (cec_tx s)
             \<lparr>ack := (if acknowledged (buf (msgt (cec_tx s)) ! 0) lvl then 1 else 0),
              msgt := (msgt (cec_tx s))
                \<lparr>bit_ofs := 0, byte := byte (msgt (cec_tx s)) + 1\<rparr>\<rparr> \<and>
           carried s' = carried s \<and>
           gpio_out s' = 1 \<and> tcnt1 s' = ack_verify_ticks (apb1_freq_div_10k s) \<and>
           c1csel s' = 1"
  using assms
  by (simp add: timeouts_numeral visited_numeral outputs_numeral data_block_eq
      byte_times_def bit_times_def eom_ack_times_def
      ack_high_ticks_def ack_verify_ticks_def uint_eq_iff
      cec_event_timeout_def enter_state_def get_bit_in_range msgt_is_eom_def
      msgt_inc_bit_def inc_cursor_def Let_def MAX_CEC_MSG_LEN_def carried_def
      acknowledged_def)

lemma done_step:
  assumes "cec_state s = CEC_STATE_INITIATOR_ACK_VERIFY"
    and "ack (cec_tx s) = 1"
    and "bit_ofs (msgt (cec_tx s)) = 0"
    and "byte (msgt (cec_tx s)) = len (cec_tx s)"
  shows "\<exists>s'. cec_event_timeout K lvl s = Some s' \<and>
           cec_state s' = CEC_STATE_IDLE \<and>
           cec_tx s' = (cec_tx s)\<lparr>len := 0, resends := 0,
                          msgt := (msgt (cec_tx s))\<lparr>bit_ofs := 0, byte := 0\<rparr>\<rparr> \<and>
           cec_events s' = cec_events s OR EC_MKBP_CEC_SEND_OK K \<and>
           mkbp_log s' = mkbp_log s @ [EC_MKBP_CEC_SEND_OK K] \<and>
           gpio_out s' = gpio_out s \<and> tcnt1 s' = tcnt1 s \<and> c1csel s' = c1csel s"
  using assms
  by (simp add: cec_event_timeout_def enter_state_def msgt_is_eom_def send_mkbp_event_def)

lemma drop_take_Cons:
  assumes "k < l" and "l \<le> length xs"
  shows "drop k (take l xs) = xs ! k # drop (Suc k) (take l xs)"
proof -
  have "k < length (take l xs)" using assms by simp
  then have "drop k (take l xs) = take l xs ! k # drop (Suc k) (take l xs)"
    by (rule Cons_nth_drop_Suc [symmetric])
  then show ?thesis using assms by simp
qed

lemma drop_take_Nil:
  assumes "Suc k \<le> l" and "l \<le> length xs"
  shows "(drop (Suc k) (take l xs) = []) = (Suc k = l)"
  using assms by auto

text \<open>
  From an acknowledged sample with \<open>d\<close> bytes still to send to Idle:
  \<open>1 + 21 * d\<close> expiries.
\<close>
lemma bytes_loop:
  assumes "cec_state s = CEC_STATE_INITIATOR_ACK_VERIFY"
    and "ack (cec_tx s) = 1"
    and "bit_ofs (msgt (cec_tx s)) = 0"
    and "unat (len (cec_tx s)) - unat (byte (msgt (cec_tx s))) = d"
    and "unat (byte (msgt (cec_tx s))) \<le> unat (len (cec_tx s))"
    and "unat (len (cec_tx s)) \<le> 16"
    and "length (buf (msgt (cec_tx s))) = 16"
    and "acknowledged (buf (msgt (cec_tx s)) ! 0) lvl"
    and "gpio_out s = 1" and "tcnt1 s = ack_verify_ticks (apb1_freq_div_10k s)"
    and "c1csel s = 1"
  shows "\<exists>s'. timeouts K (1 + 21 * d) lvl s = Some s' \<and>
           visited K (1 + 21 * d) lvl s = concat (replicate d data_block) @ [CEC_STATE_IDLE] \<and>
           outputs K (1 + 21 * d) lvl s =
             message_times (apb1_freq_div_10k s)
               (drop (unat (byte (msgt (cec_tx s))))
                  (take (unat (len (cec_tx s))) (buf (msgt (cec_tx s))))) @
             [(1, ack_verify_ticks (apb1_freq_div_10k s), 1)] \<and>
           cec_state s' = CEC_STATE_IDLE \<and>
           cec_tx s' = (cec_tx s)\<lparr>len := 0, resends := 0, ack := 1,
                          msgt := (msgt (cec_tx s))\<lparr>bit_ofs := 0, byte := 0\<rparr>\<rparr> \<and>
           cec_events s' = cec_events s OR EC_MKBP_CEC_SEND_OK K \<and>
           mkbp_log s' = mkbp_log s @ [EC_MKBP_CEC_SEND_OK K]"
  using assms
proof (induction d arbitrary: s)
  case 0
  from "0.prems" have e: "byte (msgt (cec_tx s)) = len (cec_tx s)"
    by (simp add: word_unat_eq_iff)
  obtain s1 where s1: "cec_event_timeout K lvl s = Some s1"
      "cec_state s1 = CEC_STATE_IDLE"
      "cec_tx s1 = (cec_tx s)\<lparr>len := 0, resends := 0,
                          msgt := (msgt (cec_tx s))\<lparr>bit_ofs := 0, byte := 0\<rparr>\<rparr>"
      "cec_events s1 = cec_events s OR EC_MKBP_CEC_SEND_OK K"
      "mkbp_log s1 = mkbp_log s @ [EC_MKBP_CEC_SEND_OK K]"
      "gpio_out s1 = gpio_out s" "tcnt1 s1 = tcnt1 s" "c1csel s1 = c1csel s"
    using done_step [OF "0.prems"(1,2,3) e, of K lvl] by blast
  have "drop (unat (byte (msgt (cec_tx s))))
          (take (unat (len (cec_tx s))) (buf (msgt (cec_tx s)))) = []"
    by (simp add: e)
  moreover have "cec_tx s1 = (cec_tx s)\<lparr>len := 0, resends := 0, ack := 1,
                          msgt := (msgt (cec_tx s))\<lparr>bit_ofs := 0, byte := 0\<rparr>\<rparr>"
    by (rule cec_tx.equality) (simp_all add: s1(3) "0.prems"(2))
  ultimately show ?case using s1(1,2,4,5,6,7,8) "0.prems"(9,10,11) by simp
next
  case (Suc d)
  let ?k = "unat (byte (msgt (cec_tx s)))"
  let ?l = "unat (len (cec_tx s))"
  let ?f = "apb1_freq_div_10k s"
  from Suc.prems have ne: "byte (msgt (cec_tx s)) \<noteq> len (cec_tx s)" by auto
  from Suc.prems have lt: "?k < 16" and kl: "?k < ?l" by linarith+
  obtain s1 where s1: "timeouts K 21 lvl s = Some s1"
      "visited K 21 lvl s = data_block"
      "outputs K 21 lvl s =
         byte_times ?f (buf (msgt (cec_tx s)) ! ?k) @
         eom_ack_times ?f (if byte (msgt (cec_tx s)) + 1 = len (cec_tx s) then 1 else 0)"
      "cec_state s1 = CEC_STATE_INITIATOR_ACK_VERIFY"
      "cec_tx s1 = (cec_tx s)
             \<lparr>ack := 1,
              msgt := (msgt (cec_tx s))
                \<lparr>bit_ofs := 0, byte := byte (msgt (cec_tx s)) + 1\<rparr>\<rparr>"
      "carried s1 = carried s"
      "gpio_out s1 = 1" "tcnt1 s1 = ack_verify_ticks ?f" "c1csel s1 = 1"
    using data_block_step [OF Suc.prems(1,2,3) ne lt, of K lvl] Suc.prems(8) by auto
  have f1: "apb1_freq_div_10k s1 = ?f" using s1(6) by (simp add: carried_def)
  have b: "unat (byte (msgt (cec_tx s1))) = Suc ?k"
    using lt by (simp add: s1(5) unat_byte_Suc)
  have l: "len (cec_tx s1) = len (cec_tx s)" by (simp add: s1(5))
  have bf: "buf (msgt (cec_tx s1)) = buf (msgt (cec_tx s))" by (simp add: s1(5))
  have p2: "ack (cec_tx s1) = 1" by (simp add: s1(5))
  have p3: "bit_ofs (msgt (cec_tx s1)) = 0" by (simp add: s1(5))
  have p4: "unat (len (cec_tx s1)) - unat (byte (msgt (cec_tx s1))) = d"
    using b l Suc.prems(4) by simp
  have p5: "unat (byte (msgt (cec_tx s1))) \<le> unat (len (cec_tx s1))"
    using b l kl by simp
  have p6: "unat (len (cec_tx s1)) \<le> 16" using l Suc.prems(6) by simp
  have p7: "length (buf (msgt (cec_tx s1))) = 16" using bf Suc.prems(7) by simp
  have p8: "acknowledged (buf (msgt (cec_tx s1)) ! 0) lvl" using bf Suc.prems(8) by simp
  have p10: "tcnt1 s1 = ack_verify_ticks (apb1_freq_div_10k s1)" by (simp add: s1(8) f1)
  from Suc.IH [OF s1(4) p2 p3 p4 p5 p6 p7 p8 s1(7) p10 s1(9)]
  obtain s2 where s2: "timeouts K (1 + 21 * d) lvl s1 = Some s2"
      "visited K (1 + 21 * d) lvl s1 = concat (replicate d data_block) @ [CEC_STATE_IDLE]"
      "outputs K (1 + 21 * d) lvl s1 =
             message_times (apb1_freq_div_10k s1)
               (drop (unat (byte (msgt (cec_tx s1))))
                  (take (unat (len (cec_tx s1))) (buf (msgt (cec_tx s1))))) @
             [(1, ack_verify_ticks (apb1_freq_div_10k s1), 1)]"
      "cec_state s2 = CEC_STATE_IDLE"
      "cec_tx s2 = (cec_tx s1)\<lparr>len := 0, resends := 0, ack := 1,
                          msgt := (msgt (cec_tx s1))\<lparr>bit_ofs := 0, byte := 0\<rparr>\<rparr>"
      "cec_events s2 = cec_events s1 OR EC_MKBP_CEC_SEND_OK K"
      "mkbp_log s2 = mkbp_log s1 @ [EC_MKBP_CEC_SEND_OK K]"
    by blast
  have e: "21 + (1 + 21 * d) = 1 + 21 * Suc d" by simp
  have t: "timeouts K (21 + (1 + 21 * d)) lvl s = Some s2"
    using s1(1) s2(1) by (simp only: timeouts_add) simp
  have v: "visited K (21 + (1 + 21 * d)) lvl s =
      concat (replicate (Suc d) data_block) @ [CEC_STATE_IDLE]"
    using s1(1,2) s2(2) by (simp only: visited_add) simp
  have le: "?l \<le> length (buf (msgt (cec_tx s)))" using Suc.prems(6,7) by simp
  have eom: "(byte (msgt (cec_tx s)) + 1 = len (cec_tx s)) =
      (drop (Suc ?k) (take ?l (buf (msgt (cec_tx s)))) = [])"
  proof -
    have "(byte (msgt (cec_tx s)) + 1 = len (cec_tx s)) = (Suc ?k = ?l)"
      using lt by (simp add: word_unat_eq_iff unat_byte_Suc)
    also have "\<dots> = (drop (Suc ?k) (take ?l (buf (msgt (cec_tx s)))) = [])"
      using kl le by auto
    finally show ?thesis .
  qed
  have m: "message_times ?f (drop ?k (take ?l (buf (msgt (cec_tx s))))) =
      byte_times ?f (buf (msgt (cec_tx s)) ! ?k) @
      eom_ack_times ?f (if byte (msgt (cec_tx s)) + 1 = len (cec_tx s) then 1 else 0) @
      message_times ?f (drop (Suc ?k) (take ?l (buf (msgt (cec_tx s)))))"
    using drop_take_Cons [OF kl le] by (simp add: eom)
  have o: "outputs K (21 + (1 + 21 * d)) lvl s =
      message_times ?f (drop ?k (take ?l (buf (msgt (cec_tx s))))) @
      [(1, ack_verify_ticks ?f, 1)]"
    using s1(1,3) s2(3) by (simp only: outputs_add) (simp add: m f1 b l bf)
  show ?case
    using t v o s2(4,5,6,7) s1(5,6) by (simp only: e) (simp add: carried_def)
qed

lemma nak_resend:
  assumes "cec_state s = CEC_STATE_INITIATOR_ACK_VERIFY"
    and "ack (cec_tx s) = 0" and "resends (cec_tx s) < 5"
  shows "\<exists>s'. cec_event_timeout K lvl s = Some s' \<and>
           cec_state s' = CEC_STATE_INITIATOR_FREE_TIME \<and>
           cec_tx s' = (cec_tx s)\<lparr>resends := resends (cec_tx s) + 1\<rparr> \<and>
           carried s' = carried s \<and>
           gpio_out s' = 1 \<and> tcnt1 s' = sint (FREE_TIME_RS (apb1_freq_div_10k s)) \<and>
           c1csel s' = 1"
proof -
  from assms(3) have "unat (resends (cec_tx s)) < 5" by (simp add: word_less_nat_alt)
  then have "unat (resends (cec_tx s) + 1) \<noteq> 0" by (simp add: unat_word_ariths)
  then have "resends (cec_tx s) + 1 \<noteq> 0" by (simp add: unat_eq_0)
  then show ?thesis
    using assms
    by (simp add: cec_event_timeout_def enter_free_time CEC_MAX_RESENDS_def carried_def)
qed

lemma nak_abort:
  assumes "cec_state s = CEC_STATE_INITIATOR_ACK_VERIFY"
    and "ack (cec_tx s) = 0" and "\<not> resends (cec_tx s) < 5"
  shows "\<exists>s'. cec_event_timeout K lvl s = Some s' \<and>
           cec_state s' = CEC_STATE_IDLE \<and>
           cec_tx s' = (cec_tx s)\<lparr>len := 0, resends := 0,
                          msgt := (msgt (cec_tx s))\<lparr>bit_ofs := 0, byte := 0\<rparr>\<rparr> \<and>
           cec_events s' = cec_events s OR EC_MKBP_CEC_SEND_FAILED K \<and>
           mkbp_log s' = mkbp_log s @ [EC_MKBP_CEC_SEND_FAILED K] \<and>
           gpio_out s' = gpio_out s \<and> tcnt1 s' = tcnt1 s \<and> c1csel s' = c1csel s"
  using assms
  by (simp add: cec_event_timeout_def enter_state_def CEC_MAX_RESENDS_def
      send_mkbp_event_def)

text \<open>One rejected attempt that is followed by a resend: 24 expiries.\<close>
lemma nak_round:
  assumes "cec_state s = CEC_STATE_INITIATOR_FREE_TIME"
    and "\<not> acknowledged (buf (msgt (cec_tx s)) ! 0) lvl"
    and "resends (cec_tx s) < 5"
  shows "\<exists>s'. timeouts K 24 lvl s = Some s' \<and>
           visited K 24 lvl s = header_frame @ [CEC_STATE_INITIATOR_FREE_TIME] \<and>
           outputs K 24 lvl s =
             header_frame_times (apb1_freq_div_10k s) (buf (msgt (cec_tx s)) ! 0)
               (if len (cec_tx s) = 1 then 1 else 0) @
             [(1, sint (FREE_TIME_RS (apb1_freq_div_10k s)), 1)] \<and>
           cec_state s' = CEC_STATE_INITIATOR_FREE_TIME \<and>
           cec_tx s' = (cec_tx s)\<lparr>ack := 0, resends := resends (cec_tx s) + 1,
                          msgt := (msgt (cec_tx s))\<lparr>bit_ofs := 0, byte := 1\<rparr>\<rparr> \<and>
           carried s' = carried s"
proof -
  obtain s1 where s1: "timeouts K 23 lvl s = Some s1" "visited K 23 lvl s = header_frame"
      "outputs K 23 lvl s =
         header_frame_times (apb1_freq_div_10k s) (buf (msgt (cec_tx s)) ! 0)
           (if len (cec_tx s) = 1 then 1 else 0)"
      "cec_state s1 = CEC_STATE_INITIATOR_ACK_VERIFY"
      "cec_tx s1 = (cec_tx s)\<lparr>ack := 0,
                          msgt := (msgt (cec_tx s))\<lparr>bit_ofs := 0, byte := 1\<rparr>\<rparr>"
      "carried s1 = carried s"
    using header_attempt [OF assms(1), of K lvl] assms(2) by auto
  have f: "apb1_freq_div_10k s1 = apb1_freq_div_10k s" using s1(6) by (simp add: carried_def)
  obtain s2 where s2: "cec_event_timeout K lvl s1 = Some s2"
      "cec_state s2 = CEC_STATE_INITIATOR_FREE_TIME"
      "cec_tx s2 = (cec_tx s1)\<lparr>resends := resends (cec_tx s1) + 1\<rparr>"
      "carried s2 = carried s1"
      "gpio_out s2 = 1" "tcnt1 s2 = sint (FREE_TIME_RS (apb1_freq_div_10k s1))"
      "c1csel s2 = 1"
    using nak_resend [of s1 K lvl] s1(4,5) assms(3) by auto
  have "timeouts K (23 + 1) lvl s = Some s2"
    using s1(1) s2(1) by (simp only: timeouts_add) simp
  moreover have "visited K (23 + 1) lvl s = header_frame @ [CEC_STATE_INITIATOR_FREE_TIME]"
    using s1(1,2) s2(1,2) by (simp only: visited_add) simp
  moreover have "outputs K (23 + 1) lvl s =
      header_frame_times (apb1_freq_div_10k s) (buf (msgt (cec_tx s)) ! 0)
        (if len (cec_tx s) = 1 then 1 else 0) @
      [(1, sint (FREE_TIME_RS (apb1_freq_div_10k s)), 1)]"
    using s1(1,3) s2(1,5,6,7) f by (simp only: outputs_add) simp
  ultimately show ?thesis using s1 s2 by simp
qed

text \<open>The rejected attempt after the last resend: 24 expiries, then Idle.\<close>
lemma nak_last_round:
  assumes "cec_state s = CEC_STATE_INITIATOR_FREE_TIME"
    and "\<not> acknowledged (buf (msgt (cec_tx s)) ! 0) lvl"
    and "\<not> resends (cec_tx s) < 5"
  shows "\<exists>s'. timeouts K 24 lvl s = Some s' \<and>
           visited K 24 lvl s = header_frame @ [CEC_STATE_IDLE] \<and>
           outputs K 24 lvl s =
             header_frame_times (apb1_freq_div_10k s) (buf (msgt (cec_tx s)) ! 0)
               (if len (cec_tx s) = 1 then 1 else 0) @
             [(1, ack_verify_ticks (apb1_freq_div_10k s), 1)] \<and>
           cec_state s' = CEC_STATE_IDLE \<and>
           cec_tx s' = (cec_tx s)\<lparr>ack := 0, len := 0, resends := 0,
                          msgt := (msgt (cec_tx s))\<lparr>bit_ofs := 0, byte := 0\<rparr>\<rparr> \<and>
           cec_events s' = cec_events s OR EC_MKBP_CEC_SEND_FAILED K \<and>
           mkbp_log s' = mkbp_log s @ [EC_MKBP_CEC_SEND_FAILED K]"
proof -
  obtain s1 where s1: "timeouts K 23 lvl s = Some s1" "visited K 23 lvl s = header_frame"
      "outputs K 23 lvl s =
         header_frame_times (apb1_freq_div_10k s) (buf (msgt (cec_tx s)) ! 0)
           (if len (cec_tx s) = 1 then 1 else 0)"
      "cec_state s1 = CEC_STATE_INITIATOR_ACK_VERIFY"
      "cec_tx s1 = (cec_tx s)\<lparr>ack := 0,
                          msgt := (msgt (cec_tx s))\<lparr>bit_ofs := 0, byte := 1\<rparr>\<rparr>"
      "carried s1 = carried s"
      "gpio_out s1 = 1" "tcnt1 s1 = ack_verify_ticks (apb1_freq_div_10k s)" "c1csel s1 = 1"
    using header_attempt [OF assms(1), of K lvl] assms(2) by auto
  obtain s2 where s2: "cec_event_timeout K lvl s1 = Some s2"
      "cec_state s2 = CEC_STATE_IDLE"
      "cec_tx s2 = (cec_tx s1)\<lparr>len := 0, resends := 0,
                          msgt := (msgt (cec_tx s1))\<lparr>bit_ofs := 0, byte := 0\<rparr>\<rparr>"
      "cec_events s2 = cec_events s1 OR EC_MKBP_CEC_SEND_FAILED K"
      "mkbp_log s2 = mkbp_log s1 @ [EC_MKBP_CEC_SEND_FAILED K]"
      "gpio_out s2 = gpio_out s1" "tcnt1 s2 = tcnt1 s1" "c1csel s2 = c1csel s1"
    using nak_abort [of s1 K lvl] s1(4,5) assms(3) by auto
  have "timeouts K (23 + 1) lvl s = Some s2"
    using s1(1) s2(1) by (simp only: timeouts_add) simp
  moreover have "visited K (23 + 1) lvl s = header_frame @ [CEC_STATE_IDLE]"
    using s1(1,2) s2(1,2) by (simp only: visited_add) simp
  moreover have "outputs K (23 + 1) lvl s =
      header_frame_times (apb1_freq_div_10k s) (buf (msgt (cec_tx s)) ! 0)
        (if len (cec_tx s) = 1 then 1 else 0) @
      [(1, ack_verify_ticks (apb1_freq_div_10k s), 1)]"
    using s1(1,3,7,8,9) s2(1,6,7,8) by (simp only: outputs_add) simp
  ultimately show ?thesis using s1(5,6) s2 by (simp add: carried_def)
qed

lemma nak_rounds:
  assumes "cec_state s = CEC_STATE_INITIATOR_FREE_TIME"
    and "\<not> acknowledged (buf (msgt (cec_tx s)) ! 0) lvl"
    and "resends (cec_tx s) = 0"
    and "k \<le> 5"
  shows "\<exists>s'. timeouts K (24 * k) lvl s = Some s' \<and>
           visited K (24 * k) lvl s =
             concat (replicate k (header_frame @ [CEC_STATE_INITIATOR_FREE_TIME])) \<and>
           outputs K (24 * k) lvl s =
             concat (replicate k
               (header_frame_times (apb1_freq_div_10k s) (buf (msgt (cec_tx s)) ! 0)
                  (if len (cec_tx s) = 1 then 1 else 0) @
                [(1, sint (FREE_TIME_RS (apb1_freq_div_10k s)), 1)])) \<and>
           cec_state s' = CEC_STATE_INITIATOR_FREE_TIME \<and>
           resends (cec_tx s') = of_nat k \<and>
           len (cec_tx s') = len (cec_tx s) \<and>
           buf (msgt (cec_tx s')) = buf (msgt (cec_tx s)) \<and>
           (0 < k \<longrightarrow> bit_ofs (msgt (cec_tx s')) = 0 \<and> byte (msgt (cec_tx s')) = 1) \<and>
           carried s' = carried s"
  using assms(4)
proof (induction k)
  case 0
  then show ?case using assms(1-3) by simp
next
  case (Suc k)
  then have k: "k < 5" by simp
  from Suc obtain s1 where s1: "timeouts K (24 * k) lvl s = Some s1"
      "visited K (24 * k) lvl s =
         concat (replicate k (header_frame @ [CEC_STATE_INITIATOR_FREE_TIME]))"
      "outputs K (24 * k) lvl s =
             concat (replicate k
               (header_frame_times (apb1_freq_div_10k s) (buf (msgt (cec_tx s)) ! 0)
                  (if len (cec_tx s) = 1 then 1 else 0) @
                [(1, sint (FREE_TIME_RS (apb1_freq_div_10k s)), 1)]))"
      "cec_state s1 = CEC_STATE_INITIATOR_FREE_TIME"
      "resends (cec_tx s1) = of_nat k"
      "len (cec_tx s1) = len (cec_tx s)"
      "buf (msgt (cec_tx s1)) = buf (msgt (cec_tx s))"
      "carried s1 = carried s"
    by auto
  have f: "apb1_freq_div_10k s1 = apb1_freq_div_10k s" using s1(8) by (simp add: carried_def)
  have r: "resends (cec_tx s1) < 5"
    using k by (simp add: s1(5) word_less_nat_alt unat_of_nat)
  have a: "\<not> acknowledged (buf (msgt (cec_tx s1)) ! 0) lvl"
    using assms(2) by (simp add: s1(7))
  obtain s2 where s2: "timeouts K 24 lvl s1 = Some s2"
      "visited K 24 lvl s1 = header_frame @ [CEC_STATE_INITIATOR_FREE_TIME]"
      "outputs K 24 lvl s1 =
             header_frame_times (apb1_freq_div_10k s1) (buf (msgt (cec_tx s1)) ! 0)
               (if len (cec_tx s1) = 1 then 1 else 0) @
             [(1, sint (FREE_TIME_RS (apb1_freq_div_10k s1)), 1)]"
      "cec_state s2 = CEC_STATE_INITIATOR_FREE_TIME"
      "cec_tx s2 = (cec_tx s1)\<lparr>ack := 0, resends := resends (cec_tx s1) + 1,
                          msgt := (msgt (cec_tx s1))\<lparr>bit_ofs := 0, byte := 1\<rparr>\<rparr>"
      "carried s2 = carried s1"
    using nak_round [OF s1(4) a r, of K] by blast
  have e: "24 * Suc k = 24 * k + 24" by simp
  have "timeouts K (24 * k + 24) lvl s = Some s2"
    using s1(1) s2(1) by (simp only: timeouts_add) simp
  moreover have "visited K (24 * k + 24) lvl s =
      concat (replicate (Suc k) (header_frame @ [CEC_STATE_INITIATOR_FREE_TIME]))"
    using s1(1,2) s2(2) by (simp only: visited_add) (simp add: replicate_append_same [symmetric])
  moreover have "outputs K (24 * k + 24) lvl s =
      concat (replicate (Suc k)
               (header_frame_times (apb1_freq_div_10k s) (buf (msgt (cec_tx s)) ! 0)
                  (if len (cec_tx s) = 1 then 1 else 0) @
                [(1, sint (FREE_TIME_RS (apb1_freq_div_10k s)), 1)]))"
    using s1(1,3) s2(3) f s1(6,7)
    by (simp only: outputs_add) (simp add: replicate_append_same [symmetric])
  ultimately show ?case
    using s1 s2 by (simp only: e) simp
qed

text \<open>A whole rejected transfer, from the first FreeTime: 144 expiries.\<close>
lemma nak_transfer:
  assumes "cec_state s = CEC_STATE_INITIATOR_FREE_TIME"
    and "\<not> acknowledged (buf (msgt (cec_tx s)) ! 0) lvl"
    and "resends (cec_tx s) = 0"
  shows "\<exists>s'. timeouts K 144 lvl s = Some s' \<and>
           visited K 144 lvl s =
             concat (replicate 5 (header_frame @ [CEC_STATE_INITIATOR_FREE_TIME])) @
             header_frame @ [CEC_STATE_IDLE] \<and>
           outputs K 144 lvl s =
             concat (replicate 5
               (header_frame_times (apb1_freq_div_10k s) (buf (msgt (cec_tx s)) ! 0)
                  (if len (cec_tx s) = 1 then 1 else 0) @
                [(1, sint (FREE_TIME_RS (apb1_freq_div_10k s)), 1)])) @
             header_frame_times (apb1_freq_div_10k s) (buf (msgt (cec_tx s)) ! 0)
               (if len (cec_tx s) = 1 then 1 else 0) @
             [(1, ack_verify_ticks (apb1_freq_div_10k s), 1)] \<and>
           cec_state s' = CEC_STATE_IDLE \<and>
           len (cec_tx s') = 0 \<and> resends (cec_tx s') = 0 \<and>
           bit_ofs (msgt (cec_tx s')) = 0 \<and> byte (msgt (cec_tx s')) = 0 \<and>
           cec_events s' = cec_events s OR EC_MKBP_CEC_SEND_FAILED K \<and>
           mkbp_log s' = mkbp_log s @ [EC_MKBP_CEC_SEND_FAILED K]"
proof -
  let ?hf = "header_frame_times (apb1_freq_div_10k s) (buf (msgt (cec_tx s)) ! 0)
               (if len (cec_tx s) = 1 then 1 else 0)"
  from nak_rounds [OF assms, of 5 K]
  obtain s5 where s5: "timeouts K (24 * 5) lvl s = Some s5"
      "visited K (24 * 5) lvl s =
         concat (replicate 5 (header_frame @ [CEC_STATE_INITIATOR_FREE_TIME]))"
      "outputs K (24 * 5) lvl s =
         concat (replicate 5 (?hf @ [(1, sint (FREE_TIME_RS (apb1_freq_div_10k s)), 1)]))"
      "cec_state s5 = CEC_STATE_INITIATOR_FREE_TIME"
      "resends (cec_tx s5) = of_nat 5"
      "len (cec_tx s5) = len (cec_tx s)"
      "buf (msgt (cec_tx s5)) = buf (msgt (cec_tx s))"
      "carried s5 = carried s"
    by auto
  have f: "apb1_freq_div_10k s5 = apb1_freq_div_10k s" using s5(8) by (simp add: carried_def)
  have nak5: "\<not> acknowledged (buf (msgt (cec_tx s5)) ! 0) lvl"
    using assms(2) by (simp add: s5(7))
  have r5: "\<not> resends (cec_tx s5) < 5" by (simp add: s5(5))
  from nak_last_round [OF s5(4) nak5 r5, of K]
  obtain s6 where s6: "timeouts K 24 lvl s5 = Some s6"
      "visited K 24 lvl s5 = header_frame @ [CEC_STATE_IDLE]"
      "outputs K 24 lvl s5 = ?hf @ [(1, ack_verify_ticks (apb1_freq_div_10k s), 1)]"
      "cec_state s6 = CEC_STATE_IDLE"
      "cec_tx s6 = (cec_tx s5)\<lparr>ack := 0, len := 0, resends := 0,
                          msgt := (msgt (cec_tx s5))\<lparr>bit_ofs := 0, byte := 0\<rparr>\<rparr>"
      "cec_events s6 = cec_events s5 OR EC_MKBP_CEC_SEND_FAILED K"
      "mkbp_log s6 = mkbp_log s5 @ [EC_MKBP_CEC_SEND_FAILED K]"
    unfolding f s5(6) s5(7) by blast
  have e: "24 * 5 + 24 = (144::nat)" by simp
  have "timeouts K (24 * 5 + 24) lvl s = Some s6"
    using s5(1) s6(1) by (simp only: timeouts_add) simp
  then have f1: "timeouts K 144 lvl s = Some s6" by (simp only: e)
  have "visited K (24 * 5 + 24) lvl s =
      concat (replicate 5 (header_frame @ [CEC_STATE_INITIATOR_FREE_TIME])) @
      header_frame @ [CEC_STATE_IDLE]"
    using s5(1,2) s6(2) by (simp only: visited_add) simp
  then have f2: "visited K 144 lvl s =
      concat (replicate 5 (header_frame @ [CEC_STATE_INITIATOR_FREE_TIME])) @
      header_frame @ [CEC_STATE_IDLE]" by (simp only: e)
  have "outputs K (24 * 5 + 24) lvl s =
      concat (replicate 5 (?hf @ [(1, sint (FREE_TIME_RS (apb1_freq_div_10k s)), 1)])) @
      ?hf @ [(1, ack_verify_ticks (apb1_freq_div_10k s), 1)]"
    using s5(1,3) s6(3) by (simp only: outputs_add) simp
  then have f3: "outputs K 144 lvl s =
      concat (replicate 5 (?hf @ [(1, sint (FREE_TIME_RS (apb1_freq_div_10k s)), 1)])) @
      ?hf @ [(1, ack_verify_ticks (apb1_freq_div_10k s), 1)]" by (simp only: e)
  have f4: "mkbp_log s6 = mkbp_log s @ [EC_MKBP_CEC_SEND_FAILED K]"
    using s6(7) s5(8) by (simp add: carried_def)
  have f5: "cec_events s6 = cec_events s OR EC_MKBP_CEC_SEND_FAILED K"
    using s6(6) s5(8) by (simp add: carried_def)
  have f6: "len (cec_tx s6) = 0" "resends (cec_tx s6) = 0"
    "bit_ofs (msgt (cec_tx s6)) = 0" "byte (msgt (cec_tx s6)) = 0"
    by (simp_all add: s6(5))
  show ?thesis using f1 f2 f3 f4 f5 f6 s6(4) by blast
qed

section \<open>The invariant holds in every reachable state\<close>

lemma cec_inv_boot: "cec_inv (cec_boot f)"
  by (simp add: cec_inv_def cec_boot_def MAX_CEC_MSG_LEN_def)

lemma u8_unat_simps:
  fixes x :: u8
  shows "unat x \<le> 7 \<Longrightarrow> unat (x + 1) = Suc (unat x)"
    and "unat x \<le> 16 \<Longrightarrow> unat (x + 1) = Suc (unat x)"
  by (simp_all add: unat_word_ariths)

lemma u8_eq_numeral:
  fixes x :: u8
  shows "(x = 0) = (unat x = 0)" "(x = 1) = (unat x = 1)" "(x = 4) = (unat x = 4)"
    "(x = 8) = (unat x = 8)"
  by (simp_all add: word_unat_eq_iff)

lemma inv_timeout_idle:
  assumes "cec_inv s" "cec_state s = CEC_STATE_IDLE"
  shows "\<exists>s'. cec_event_timeout K lvl s = Some s' \<and> cec_inv s'"
  using assms by (simp add: cec_event_timeout_def)

lemma inv_timeout_free:
  assumes "cec_inv s" "cec_state s = CEC_STATE_INITIATOR_FREE_TIME"
  shows "\<exists>s'. cec_event_timeout K lvl s = Some s' \<and> cec_inv s'"
  using assms by (simp add: cec_event_timeout_def enter_state_def cec_inv_def)

lemma inv_timeout_start_low:
  assumes "cec_inv s" "cec_state s = CEC_STATE_INITIATOR_START_LOW"
  shows "\<exists>s'. cec_event_timeout K lvl s = Some s' \<and> cec_inv s'"
  using assms by (simp add: cec_event_timeout_def enter_state_def cec_inv_def)

lemma inv_timeout_start_high:
  assumes "cec_inv s" "cec_state s = CEC_STATE_INITIATOR_START_HIGH"
  shows "\<exists>s'. cec_event_timeout K lvl s = Some s' \<and> cec_inv s'"
  using assms
  by (simp add: cec_event_timeout_def enter_state_def cec_inv_def msgt_get_bit_def
      MAX_CEC_MSG_LEN_def)

lemma inv_timeout_hil:
  assumes "cec_inv s" "cec_state s = CEC_STATE_INITIATOR_HEADER_INIT_LOW"
  shows "\<exists>s'. cec_event_timeout K lvl s = Some s' \<and> cec_inv s'"
  using assms
  by (simp add: cec_event_timeout_def enter_state_def cec_inv_def msgt_get_bit_def
      MAX_CEC_MSG_LEN_def)

lemma inv_timeout_hih:
  assumes "cec_inv s" "cec_state s = CEC_STATE_INITIATOR_HEADER_INIT_HIGH"
  shows "\<exists>s'. cec_event_timeout K lvl s = Some s' \<and> cec_inv s'"
  using assms
  by (auto simp add: cec_event_timeout_def enter_state_def cec_inv_def msgt_get_bit_def
      msgt_inc_bit_def inc_cursor_def Let_def MAX_CEC_MSG_LEN_def u8_unat_simps u8_eq_numeral)


lemma inv_timeout_hdl:
  assumes "cec_inv s" "cec_state s = CEC_STATE_INITIATOR_HEADER_DEST_LOW"
  shows "\<exists>s'. cec_event_timeout K lvl s = Some s' \<and> cec_inv s'"
  using assms
  by (simp add: cec_event_timeout_def enter_state_def cec_inv_def msgt_get_bit_def
      MAX_CEC_MSG_LEN_def)

lemma inv_timeout_hdh:
  assumes "cec_inv s" "cec_state s = CEC_STATE_INITIATOR_HEADER_DEST_HIGH"
  shows "\<exists>s'. cec_event_timeout K lvl s = Some s' \<and> cec_inv s'"
  using assms
  by (auto simp add: cec_event_timeout_def enter_state_def cec_inv_def msgt_get_bit_def
      msgt_inc_bit_def inc_cursor_def Let_def MAX_CEC_MSG_LEN_def u8_unat_simps u8_eq_numeral)

lemma inv_timeout_eom_ack:
  assumes "cec_inv s"
    "cec_state s = CEC_STATE_INITIATOR_EOM_LOW \<or> cec_state s = CEC_STATE_INITIATOR_EOM_HIGH \<or>
     cec_state s = CEC_STATE_INITIATOR_ACK_LOW \<or> cec_state s = CEC_STATE_INITIATOR_ACK_HIGH"
  shows "\<exists>s'. cec_event_timeout K lvl s = Some s' \<and> cec_inv s'"
  using assms
  by (auto simp add: cec_event_timeout_def enter_state_def cec_inv_def Let_def)

lemma inv_timeout_data_low:
  assumes "cec_inv s" "cec_state s = CEC_STATE_INITIATOR_DATA_LOW"
  shows "\<exists>s'. cec_event_timeout K lvl s = Some s' \<and> cec_inv s'"
  using assms
  by (simp add: cec_event_timeout_def enter_state_def cec_inv_def msgt_get_bit_def
      MAX_CEC_MSG_LEN_def)

lemma inv_timeout_data_high:
  assumes "cec_inv s" "cec_state s = CEC_STATE_INITIATOR_DATA_HIGH"
  shows "\<exists>s'. cec_event_timeout K lvl s = Some s' \<and> cec_inv s'"
  using assms
  by (auto simp add: cec_event_timeout_def enter_state_def cec_inv_def msgt_get_bit_def
      msgt_inc_bit_def inc_cursor_def Let_def MAX_CEC_MSG_LEN_def u8_unat_simps u8_eq_numeral)

lemma inv_timeout_verify:
  assumes "cec_inv s" "cec_state s = CEC_STATE_INITIATOR_ACK_VERIFY"
  shows "\<exists>s'. cec_event_timeout K lvl s = Some s' \<and> cec_inv s'"
  using assms
  by (auto simp add: cec_event_timeout_def enter_state_def cec_inv_def msgt_get_bit_def
      msgt_is_eom_def send_mkbp_event_def CEC_MAX_RESENDS_def
      Let_def MAX_CEC_MSG_LEN_def u8_unat_simps u8_eq_numeral uint_eq_iff
      word_less_nat_alt word_unat_eq_iff)


lemma inv_timeout:
  assumes "cec_inv s"
  shows "\<exists>s'. cec_event_timeout K lvl s = Some s' \<and> cec_inv s'"
proof (cases "cec_state s")
  case CEC_STATE_IDLE
  with assms show ?thesis by (rule inv_timeout_idle)
next
  case CEC_STATE_INITIATOR_FREE_TIME
  with assms show ?thesis by (rule inv_timeout_free)
next
  case CEC_STATE_INITIATOR_START_LOW
  with assms show ?thesis by (rule inv_timeout_start_low)
next
  case CEC_STATE_INITIATOR_START_HIGH
  with assms show ?thesis by (rule inv_timeout_start_high)
next
  case CEC_STATE_INITIATOR_HEADER_INIT_LOW
  with assms show ?thesis by (rule inv_timeout_hil)
next
  case CEC_STATE_INITIATOR_HEADER_INIT_HIGH
  with assms show ?thesis by (rule inv_timeout_hih)
next
  case CEC_STATE_INITIATOR_HEADER_DEST_LOW
  with assms show ?thesis by (rule inv_timeout_hdl)
next
  case CEC_STATE_INITIATOR_HEADER_DEST_HIGH
  with assms show ?thesis by (rule inv_timeout_hdh)
next
  case CEC_STATE_INITIATOR_DATA_LOW
  with assms show ?thesis by (rule inv_timeout_data_low)
next
  case CEC_STATE_INITIATOR_DATA_HIGH
  with assms show ?thesis by (rule inv_timeout_data_high)
next
  case CEC_STATE_INITIATOR_EOM_LOW
  with assms show ?thesis by (intro inv_timeout_eom_ack) simp_all
next
  case CEC_STATE_INITIATOR_EOM_HIGH
  with assms show ?thesis by (intro inv_timeout_eom_ack) simp_all
next
  case CEC_STATE_INITIATOR_ACK_LOW
  with assms show ?thesis by (intro inv_timeout_eom_ack) simp_all
next
  case CEC_STATE_INITIATOR_ACK_HIGH
  with assms show ?thesis by (intro inv_timeout_eom_ack) simp_all
next
  case CEC_STATE_INITIATOR_ACK_VERIFY
  with assms show ?thesis by (rule inv_timeout_verify)
qed

lemma enter_state_c2csel:
  "enter_state st lvl s = Some s' \<Longrightarrow> c2csel s' = c2csel s"
  by (cases st) (auto simp: enter_state_def Let_def split: option.splits)

lemma timeout_c2csel:
  "cec_event_timeout K lvl s = Some s' \<Longrightarrow> c2csel s' = c2csel s"
  by (cases "cec_state s")
    (auto simp: cec_event_timeout_def send_mkbp_event_def inc_cursor_def Let_def
       dest!: enter_state_c2csel split: if_splits)

lemma inv_start_trigger:
  assumes "cec_inv s" "c2csel s \<noteq> 0"
  shows "\<exists>s'. cec_event_tx lvl (tmr2_stop s) = Some s' \<and> cec_inv s'"
proof -
  from assms have "cec_state s = CEC_STATE_IDLE"
    by (auto simp: cec_inv_def split: if_splits)
  with assms show ?thesis
    by (simp add: cec_event_tx_def tmr2_stop_def enter_state_def cec_inv_def)
qed

lemma inv_isr:
  assumes "cec_inv s" "tdpnd \<longrightarrow> c2csel s \<noteq> 0"
  shows "\<exists>s'. cec_isr K tcpnd tdpnd lvl s = Some s' \<and> cec_inv s'"
proof -
  have "\<exists>s1. (if tcpnd then cec_event_timeout K lvl s else Some s) = Some s1 \<and>
          cec_inv s1 \<and> c2csel s1 = c2csel s"
  proof (cases tcpnd)
    case True
    from inv_timeout [OF assms(1), of K lvl]
    obtain s1 where "cec_event_timeout K lvl s = Some s1" "cec_inv s1" by blast
    with True show ?thesis by (simp add: timeout_c2csel)
  next
    case False
    with assms(1) show ?thesis by simp
  qed
  then obtain s1 where s1: "(if tcpnd then cec_event_timeout K lvl s else Some s) = Some s1"
      "cec_inv s1" "c2csel s1 = c2csel s"
    by blast
  show ?thesis
  proof (cases tdpnd)
    case True
    with assms(2) s1 have "c2csel s1 \<noteq> 0" by simp
    from inv_start_trigger [OF s1(2) this, of lvl] s1(1) True show ?thesis
      by (auto simp: cec_isr_def)
  next
    case False
    with s1 show ?thesis by (auto simp: cec_isr_def)
  qed
qed

lemma inv_write:
  assumes "cec_inv s" "0 \<le> params_size" "hc_cec_write msg params_size s = Some (r, s')"
  shows "cec_inv s'"
proof (cases "params_size = 0 \<or> params_size > int MAX_CEC_MSG_LEN")
  case True
  with assms show ?thesis by (simp add: hc_cec_write_def)
next
  case False
  show ?thesis
  proof (cases "len (cec_tx s) = 0")
    case busy: False
    with assms False show ?thesis
      by (auto simp: hc_cec_write_def cec_send_def)
  next
    case True
    with assms(1) have idle: "cec_state s = CEC_STATE_IDLE" "c2csel s = 0"
      by (auto simp: cec_inv_def split: if_splits)
    define n where "n = nat params_size"
    from False assms(2) have n: "params_size = int n" "1 \<le> n" "n \<le> 16"
      by (auto simp: n_def MAX_CEC_MSG_LEN_def)
    define l :: u8 where "l = word_of_int params_size"
    have ul: "unat l = n" using n by (simp add: l_def unat_of_nat_small)
    from assms(3) False True
    have fit: "unat l \<le> length msg"
      and s': "s' = tmr2_start 0
          (s\<lparr>cec_tx := (cec_tx s)
               \<lparr>len := l,
                msgt := (msgt (cec_tx s))
                  \<lparr>buf := take (unat l) msg @ drop (unat l) (buf (msgt (cec_tx s)))\<rparr>\<rparr>\<rparr>)"
      by (auto simp: hc_cec_write_def cec_send_def l_def split: if_splits)
    have "l \<noteq> 0" using ul n by auto
    with assms(1) idle fit ul n show ?thesis
      by (simp add: s' tmr2_start_def cec_inv_def MAX_CEC_MSG_LEN_def)
  qed
qed

lemma reach_inv: "cec_reach K s \<Longrightarrow> cec_inv s"
proof (induction rule: cec_reach.induct)
  case (reach_boot f)
  show ?case by (rule cec_inv_boot)
next
  case (reach_write s params_size msg r s')
  then show ?case by (blast intro: inv_write)
next
  case (reach_isr s tdpnd tcpnd lvl s')
  from inv_isr [OF reach_isr.IH reach_isr.hyps(2), of K tcpnd lvl] reach_isr.hyps(3)
  show ?case by simp
qed

lemma reach_progress:
  assumes "cec_reach K s" "tdpnd \<longrightarrow> c2csel s \<noteq> 0"
  shows "\<exists>s'. cec_isr K tcpnd tdpnd lvl s = Some s'"
  using inv_isr [OF reach_inv [OF assms(1)] assms(2)] by blast


lemma reach_timeouts:
  "cec_reach K s \<Longrightarrow> timeouts K n lvl s = Some s' \<Longrightarrow> cec_reach K s'"
proof (induction n arbitrary: s)
  case 0
  then show ?case by simp
next
  case (Suc n)
  from Suc.prems(2) obtain s1 where s1: "cec_event_timeout K lvl s = Some s1"
      "timeouts K n lvl s1 = Some s'"
    by (auto split: option.splits)
  have "cec_isr K True False lvl s = Some s1" using s1(1) by (simp add: cec_isr_def)
  with Suc.prems(1) have "cec_reach K s1"
    by (rule reach_isr [where tdpnd = False and tcpnd = True and lvl = lvl, simplified])
  then show ?case using s1(2) by (rule Suc.IH)
qed

lemma cursor_ok_range: "cursor_ok st b y l \<Longrightarrow> b \<le> 7 \<and> y \<le> l"
  by (cases st) auto

lemma reach_mid_header:
  "cec_reach K ((cec_boot 1500)
     \<lparr>cec_state := CEC_STATE_INITIATOR_HEADER_DEST_LOW,
      cec_tx := \<lparr>msgt = \<lparr>buf = 0x40 # replicate 15 0, bit_ofs = 7, byte = 0\<rparr>,
                 len = 1, resends = 0, ack = 0\<rparr>,
      gpio_out := 0, tcnt1 := 22500, c1csel := 1\<rparr>)"
proof -
  define s1 where "s1 = (cec_boot 1500)
        \<lparr>cec_tx := \<lparr>msgt = \<lparr>buf = 0x40 # replicate 15 0, bit_ofs = 0, byte = 0\<rparr>,
                    len = 1, resends = 0, ack = 0\<rparr>,
         c2csel := 1\<rparr>"
  define s2 where "s2 = (cec_boot 1500)
        \<lparr>cec_state := CEC_STATE_INITIATOR_FREE_TIME,
         cec_tx := \<lparr>msgt = \<lparr>buf = 0x40 # replicate 15 0, bit_ofs = 0, byte = 0\<rparr>,
                    len = 1, resends = 0, ack = 0\<rparr>,
         tcnt1 := 180000, c1csel := 1\<rparr>"
  have e1: "hc_cec_write [0x40] 1 (cec_boot 1500) = Some (EC_RES_SUCCESS, s1)"
    by (simp add: s1_def hc_cec_write_def cec_send_def cec_boot_def tmr2_start_def
        MAX_CEC_MSG_LEN_def)
  have p1: "(0::int) \<le> 1" by simp
  have r1: "cec_reach K s1"
    using reach_boot p1 e1 by (rule reach_write)
  have e2: "cec_isr K False True 0 s1 = Some s2"
    by (simp add: s1_def s2_def start_trigger cec_boot_def FREE_TIME_NI_def
        NOMINAL_BIT_TIME_def APB1_TICKS_def)
  have p2: "True \<longrightarrow> c2csel s1 \<noteq> 0" by (simp add: s1_def)
  have r2: "cec_reach K s2"
    using r1 p2 e2 by (rule reach_isr)
  have e3: "timeouts K 17 0 s2 =
      Some ((cec_boot 1500)
     \<lparr>cec_state := CEC_STATE_INITIATOR_HEADER_DEST_LOW,
      cec_tx := \<lparr>msgt = \<lparr>buf = 0x40 # replicate 15 0, bit_ofs = 7, byte = 0\<rparr>,
                 len = 1, resends = 0, ack = 0\<rparr>,
      gpio_out := 0, tcnt1 := 22500, c1csel := 1\<rparr>)"
    by (simp add: s2_def cec_boot_def timeouts_numeral cec_event_timeout_def enter_state_def
        msgt_get_bit_def msgt_inc_bit_def inc_cursor_def Let_def MAX_CEC_MSG_LEN_def
        set_outputs_def gpio_set_level_def tmr_oneshot_start_def DATA_LOW_def DATA_HIGH_def
        START_BIT_LOW_def START_BIT_HIGH_def DATA_ZERO_LOW_def DATA_ZERO_HIGH_def
        DATA_ONE_LOW_def DATA_ONE_HIGH_def APB1_TICKS_def)
  from r2 e3 show ?thesis by (rule reach_timeouts)
qed


section \<open>Properties of the transmitter\<close>

text \<open>
  C1. For every message of 1 to 16 bytes: from an idle machine with no transfer in
  progress, the write command is accepted, the start trigger enters FreeTime, and
  when the line reads as acknowledged at every sample (low for a direct address,
  high for the broadcast address 15), the next 3 + 21 * length timer expiries
  enter the states of the header frame, then of one data block for each further
  byte, then Idle, and Idle not before; the line and the timer carry the start
  bit and then every byte of the message with its end-of-message and acknowledge
  bits. At the end exactly one event, send-ok, has been recorded, the stored
  length is 0, the resend counter is 0 and the cursor is at {0,0}.
\<close>
theorem successful_transfer:
  assumes "cec_state s = CEC_STATE_IDLE"
    and "len (cec_tx s) = 0"
    and "length (buf (msgt (cec_tx s))) = MAX_CEC_MSG_LEN"
    and "1 \<le> length msg" and "length msg \<le> 16"
    and "acknowledged (msg ! 0) lvl"
  shows "\<exists>s1 s2 s3.
           hc_cec_write msg (int (length msg)) s = Some (EC_RES_SUCCESS, s1) \<and>
           cec_isr K False True lvl s1 = Some s2 \<and>
           cec_state s2 = CEC_STATE_INITIATOR_FREE_TIME \<and>
           gpio_out s2 = 1 \<and> c1csel s2 = 1 \<and>
           tcnt1 s2 = (if resends (cec_tx s) = 0
                       then sint (FREE_TIME_NI (apb1_freq_div_10k s))
                       else sint (FREE_TIME_RS (apb1_freq_div_10k s))) \<and>
           timeouts K (3 + 21 * length msg) lvl s2 = Some s3 \<and>
           visited K (3 + 21 * length msg) lvl s2 =
             header_frame @ concat (replicate (length msg - 1) data_block) @
             [CEC_STATE_IDLE] \<and>
           CEC_STATE_IDLE \<notin> set (butlast (visited K (3 + 21 * length msg) lvl s2)) \<and>
           outputs K (3 + 21 * length msg) lvl s2 =
             [(0, sint (START_BIT_LOW (apb1_freq_div_10k s)), 1),
              (1, sint (START_BIT_HIGH (apb1_freq_div_10k s)), 1)] @
             message_times (apb1_freq_div_10k s) msg @
             [(1, ack_verify_ticks (apb1_freq_div_10k s), 1)] \<and>
           cec_state s3 = CEC_STATE_IDLE \<and>
           len (cec_tx s3) = 0 \<and> resends (cec_tx s3) = 0 \<and>
           bit_ofs (msgt (cec_tx s3)) = 0 \<and> byte (msgt (cec_tx s3)) = 0 \<and>
           mkbp_log s3 = mkbp_log s @ [EC_MKBP_CEC_SEND_OK K] \<and>
           cec_events s3 = cec_events s OR EC_MKBP_CEC_SEND_OK K"
proof -
  let ?f = "apb1_freq_div_10k s"
  let ?n = "length msg"
  define s1 where "s1 = s\<lparr>cec_tx := (cec_tx s)
                  \<lparr>len := word_of_int (int (length msg)),
                   msgt := (msgt (cec_tx s))
                     \<lparr>buf := msg @ drop (length msg) (buf (msgt (cec_tx s)))\<rparr>\<rparr>,
               tcnt2 := 0, c2csel := 1\<rparr>"
  have w: "hc_cec_write msg (int (length msg)) s = Some (EC_RES_SUCCESS, s1)"
    unfolding s1_def using assms(2-5) by (rule admission)
  define s2 where "s2 = s1\<lparr>cec_state := CEC_STATE_INITIATOR_FREE_TIME, gpio_out := 1,
             tcnt1 := (if resends (cec_tx s1) = 0
                       then sint (FREE_TIME_NI (apb1_freq_div_10k s1))
                       else sint (FREE_TIME_RS (apb1_freq_div_10k s1))),
             c1csel := 1, c2csel := 0\<rparr>"
  have t: "cec_isr K False True lvl s1 = Some s2"
    unfolding s2_def by (rule start_trigger)
  have s2_state: "cec_state s2 = CEC_STATE_INITIATOR_FREE_TIME" by (simp add: s2_def)
  have s2_out: "gpio_out s2 = 1" "c1csel s2 = 1"
    "tcnt1 s2 = (if resends (cec_tx s) = 0
                       then sint (FREE_TIME_NI ?f) else sint (FREE_TIME_RS ?f))"
    by (simp_all add: s2_def s1_def)
  have s2_tx: "cec_tx s2 = (cec_tx s)
                  \<lparr>len := word_of_int (int (length msg)),
                   msgt := (msgt (cec_tx s))
                     \<lparr>buf := msg @ drop (length msg) (buf (msgt (cec_tx s)))\<rparr>\<rparr>"
    by (simp add: s2_def s1_def)
  have s2_rest: "cec_events s2 = cec_events s" "mkbp_log s2 = mkbp_log s"
    "apb1_freq_div_10k s2 = ?f"
    by (simp_all add: s2_def s1_def)
  have ul: "unat (len (cec_tx s2)) = ?n"
    using assms(5) by (simp add: s2_tx unat_of_nat_small)
  have tk: "take ?n (buf (msgt (cec_tx s2))) = msg" by (simp add: s2_tx)
  have lb: "length (buf (msgt (cec_tx s2))) = 16"
    using assms(3,5) by (simp add: s2_tx MAX_CEC_MSG_LEN_def)
  have hd: "buf (msgt (cec_tx s2)) ! 0 = msg ! 0"
    using assms(4) by (cases msg) (simp_all add: s2_tx)
  have l1: "(len (cec_tx s2) = 1) = (?n = 1)"
    using ul by (simp add: word_unat_eq_iff)
  obtain s3 where s3: "timeouts K 23 lvl s2 = Some s3"
      "visited K 23 lvl s2 = header_frame"
      "outputs K 23 lvl s2 = header_frame_times ?f (msg ! 0) (if ?n = 1 then 1 else 0)"
      "cec_state s3 = CEC_STATE_INITIATOR_ACK_VERIFY"
      "cec_tx s3 = (cec_tx s2)\<lparr>ack := 1,
              msgt := (msgt (cec_tx s2))\<lparr>bit_ofs := 0, byte := 1\<rparr>\<rparr>"
      "carried s3 = carried s2"
      "gpio_out s3 = 1" "tcnt1 s3 = ack_verify_ticks ?f" "c1csel s3 = 1"
    using header_attempt [OF s2_state, of K lvl] assms(6) hd l1 s2_rest(3) by auto
  have f3: "apb1_freq_div_10k s3 = ?f" using s3(6) s2_rest(3) by (simp add: carried_def)
  have p2: "ack (cec_tx s3) = 1" by (simp add: s3(5))
  have p3: "bit_ofs (msgt (cec_tx s3)) = 0" by (simp add: s3(5))
  have p4: "unat (len (cec_tx s3)) - unat (byte (msgt (cec_tx s3))) = ?n - 1"
    using ul by (simp add: s3(5))
  have p5: "unat (byte (msgt (cec_tx s3))) \<le> unat (len (cec_tx s3))"
    using ul assms(4) by (simp add: s3(5))
  have p6: "unat (len (cec_tx s3)) \<le> 16" using ul assms(5) by (simp add: s3(5))
  have p7: "length (buf (msgt (cec_tx s3))) = 16" using lb by (simp add: s3(5))
  have p8: "acknowledged (buf (msgt (cec_tx s3)) ! 0) lvl"
    using hd assms(6) by (simp add: s3(5))
  have p10: "tcnt1 s3 = ack_verify_ticks (apb1_freq_div_10k s3)" by (simp add: s3(8) f3)
  from bytes_loop [OF s3(4) p2 p3 p4 p5 p6 p7 p8 s3(7) p10 s3(9), of K]
  obtain s4 where s4: "timeouts K (1 + 21 * (?n - 1)) lvl s3 = Some s4"
      "visited K (1 + 21 * (?n - 1)) lvl s3 =
         concat (replicate (?n - 1) data_block) @ [CEC_STATE_IDLE]"
      "outputs K (1 + 21 * (?n - 1)) lvl s3 =
             message_times (apb1_freq_div_10k s3)
               (drop (unat (byte (msgt (cec_tx s3))))
                  (take (unat (len (cec_tx s3))) (buf (msgt (cec_tx s3))))) @
             [(1, ack_verify_ticks (apb1_freq_div_10k s3), 1)]"
      "cec_state s4 = CEC_STATE_IDLE"
      "cec_tx s4 = (cec_tx s3)\<lparr>len := 0, resends := 0, ack := 1,
                          msgt := (msgt (cec_tx s3))\<lparr>bit_ofs := 0, byte := 0\<rparr>\<rparr>"
      "cec_events s4 = cec_events s3 OR EC_MKBP_CEC_SEND_OK K"
      "mkbp_log s4 = mkbp_log s3 @ [EC_MKBP_CEC_SEND_OK K]"
    by blast
  have dm: "drop (unat (byte (msgt (cec_tx s3))))
              (take (unat (len (cec_tx s3))) (buf (msgt (cec_tx s3)))) = tl msg"
    using ul tk by (simp add: s3(5) drop_Suc)
  have e: "23 + (1 + 21 * (?n - 1)) = 3 + 21 * ?n" using assms(4) by simp
  have "timeouts K (23 + (1 + 21 * (?n - 1))) lvl s2 = Some s4"
    using s3(1) s4(1) by (simp only: timeouts_add) simp
  then have r1: "timeouts K (3 + 21 * ?n) lvl s2 = Some s4" by (simp only: e)
  have "visited K (23 + (1 + 21 * (?n - 1))) lvl s2 =
      header_frame @ concat (replicate (?n - 1) data_block) @ [CEC_STATE_IDLE]"
    using s3(1,2) s4(2) by (simp only: visited_add) simp
  then have r2: "visited K (3 + 21 * ?n) lvl s2 =
      header_frame @ concat (replicate (?n - 1) data_block) @ [CEC_STATE_IDLE]"
    by (simp only: e)
  have "butlast (visited K (3 + 21 * ?n) lvl s2) =
      header_frame @ concat (replicate (?n - 1) data_block)"
    by (simp only: r2 append_assoc [symmetric] butlast_snoc)
  then have r3: "CEC_STATE_IDLE \<notin> set (butlast (visited K (3 + 21 * ?n) lvl s2))"
    by (simp only: idle_not_in_frames not_False_eq_True)
  have hm: "header_frame_times ?f (msg ! 0) (if ?n = 1 then 1 else 0) @
        message_times ?f (tl msg) =
      [(0, sint (START_BIT_LOW ?f), 1), (1, sint (START_BIT_HIGH ?f), 1)] @
        message_times ?f msg"
    using assms(4) by (cases msg) (simp_all add: header_frame_times_def)
  have "outputs K (23 + (1 + 21 * (?n - 1))) lvl s2 =
      (header_frame_times ?f (msg ! 0) (if ?n = 1 then 1 else 0) @
        message_times ?f (tl msg)) @ [(1, ack_verify_ticks ?f, 1)]"
    using s3(1,3) s4(3) by (simp only: outputs_add) (simp add: dm f3)
  then have r4: "outputs K (3 + 21 * ?n) lvl s2 =
      [(0, sint (START_BIT_LOW ?f), 1), (1, sint (START_BIT_HIGH ?f), 1)] @
      message_times ?f msg @ [(1, ack_verify_ticks ?f, 1)]"
    by (simp only: e hm) simp
  have r5: "mkbp_log s4 = mkbp_log s @ [EC_MKBP_CEC_SEND_OK K]"
    using s4(7) s3(6) s2_rest by (simp add: carried_def)
  have r6: "cec_events s4 = cec_events s OR EC_MKBP_CEC_SEND_OK K"
    using s4(6) s3(6) s2_rest by (simp add: carried_def)
  have r7: "len (cec_tx s4) = 0" "resends (cec_tx s4) = 0"
    "bit_ofs (msgt (cec_tx s4)) = 0" "byte (msgt (cec_tx s4)) = 0"
    by (simp_all add: s4(5))
  show ?thesis
    using w t s2_state s2_out r1 r2 r3 r4 r5 r6 r7 s4(4) by blast
qed

theorem successful_transfer_witness:
  "\<exists>s1 s2 s3.
     hc_cec_write [0x40, 0x01] 2 (cec_boot 1500) = Some (EC_RES_SUCCESS, s1) \<and>
     cec_isr \<lparr>EC_MKBP_CEC_SEND_OK = 65536, EC_MKBP_CEC_SEND_FAILED = 131072\<rparr>
       False True 0 s1 = Some s2 \<and>
     timeouts \<lparr>EC_MKBP_CEC_SEND_OK = 65536, EC_MKBP_CEC_SEND_FAILED = 131072\<rparr>
       45 0 s2 = Some s3 \<and>
     visited \<lparr>EC_MKBP_CEC_SEND_OK = 65536, EC_MKBP_CEC_SEND_FAILED = 131072\<rparr>
       45 0 s2 = header_frame @ data_block @ [CEC_STATE_IDLE] \<and>
     cec_state s3 = CEC_STATE_IDLE \<and> len (cec_tx s3) = 0 \<and> resends (cec_tx s3) = 0 \<and>
     bit_ofs (msgt (cec_tx s3)) = 0 \<and> byte (msgt (cec_tx s3)) = 0 \<and>
     mkbp_log s3 = [65536] \<and> cec_events s3 = 65536"
  using successful_transfer [of "cec_boot 1500" "[0x40, 0x01]" 0
      "\<lparr>EC_MKBP_CEC_SEND_OK = 65536, EC_MKBP_CEC_SEND_FAILED = 131072\<rparr>"]
  by (simp add: cec_boot_def acknowledged_def CEC_BROADCAST_ADDR_def MAX_CEC_MSG_LEN_def)
    blast

text \<open>
  C2, as stated, has six complete frames, each restarted from FreeTime with the
  cursor reset to {0,0}. For the two-byte message 0x40 0x01 on a line that reads
  high at every sample: 24 expiries after the first FreeTime the machine is in
  FreeTime again for the first resend with the cursor at bit 0 of byte 1, and in
  the 144 expiries of the whole transfer no data state is entered, so the second
  byte is never sent.
\<close>
theorem rejected_transfer_counterexample:
  "hc_cec_write [0x40, 0x01] 2 (cec_boot 1500) =
     Some (EC_RES_SUCCESS, (cec_boot 1500)
       \<lparr>cec_tx := \<lparr>msgt = \<lparr>buf = [0x40, 0x01] @ replicate 14 0, bit_ofs = 0, byte = 0\<rparr>,
                   len = 2, resends = 0, ack = 0\<rparr>,
        c2csel := 1\<rparr>) \<and>
   cec_isr \<lparr>EC_MKBP_CEC_SEND_OK = 65536, EC_MKBP_CEC_SEND_FAILED = 131072\<rparr> False True 1
     ((cec_boot 1500)
       \<lparr>cec_tx := \<lparr>msgt = \<lparr>buf = [0x40, 0x01] @ replicate 14 0, bit_ofs = 0, byte = 0\<rparr>,
                   len = 2, resends = 0, ack = 0\<rparr>,
        c2csel := 1\<rparr>) =
     Some ((cec_boot 1500)
       \<lparr>cec_state := CEC_STATE_INITIATOR_FREE_TIME,
        cec_tx := \<lparr>msgt = \<lparr>buf = [0x40, 0x01] @ replicate 14 0, bit_ofs = 0, byte = 0\<rparr>,
                   len = 2, resends = 0, ack = 0\<rparr>,
        tcnt1 := 180000, c1csel := 1\<rparr>) \<and>
   \<not> acknowledged 0x40 1 \<and>
   timeouts \<lparr>EC_MKBP_CEC_SEND_OK = 65536, EC_MKBP_CEC_SEND_FAILED = 131072\<rparr> 24 1
     ((cec_boot 1500)
       \<lparr>cec_state := CEC_STATE_INITIATOR_FREE_TIME,
        cec_tx := \<lparr>msgt = \<lparr>buf = [0x40, 0x01] @ replicate 14 0, bit_ofs = 0, byte = 0\<rparr>,
                   len = 2, resends = 0, ack = 0\<rparr>,
        tcnt1 := 180000, c1csel := 1\<rparr>) =
     Some ((cec_boot 1500)
       \<lparr>cec_state := CEC_STATE_INITIATOR_FREE_TIME,
        cec_tx := \<lparr>msgt = \<lparr>buf = [0x40, 0x01] @ replicate 14 0, bit_ofs = 0, byte = 1\<rparr>,
                   len = 2, resends = 1, ack = 0\<rparr>,
        tcnt1 := 108000, c1csel := 1\<rparr>) \<and>
   CEC_STATE_INITIATOR_DATA_LOW \<notin> set
     (visited \<lparr>EC_MKBP_CEC_SEND_OK = 65536, EC_MKBP_CEC_SEND_FAILED = 131072\<rparr> 144 1
       ((cec_boot 1500)
         \<lparr>cec_state := CEC_STATE_INITIATOR_FREE_TIME,
          cec_tx := \<lparr>msgt = \<lparr>buf = [0x40, 0x01] @ replicate 14 0, bit_ofs = 0, byte = 0\<rparr>,
                     len = 2, resends = 0, ack = 0\<rparr>,
          tcnt1 := 180000, c1csel := 1\<rparr>))"
proof (intro conjI)
  let ?K = "\<lparr>EC_MKBP_CEC_SEND_OK = 65536, EC_MKBP_CEC_SEND_FAILED = 131072\<rparr>"
  let ?s1 = "(cec_boot 1500)
       \<lparr>cec_tx := \<lparr>msgt = \<lparr>buf = [0x40, 0x01] @ replicate 14 0, bit_ofs = 0, byte = 0\<rparr>,
                   len = 2, resends = 0, ack = 0\<rparr>,
        c2csel := 1\<rparr>"
  let ?s2 = "(cec_boot 1500)
       \<lparr>cec_state := CEC_STATE_INITIATOR_FREE_TIME,
        cec_tx := \<lparr>msgt = \<lparr>buf = [0x40, 0x01] @ replicate 14 0, bit_ofs = 0, byte = 0\<rparr>,
                   len = 2, resends = 0, ack = 0\<rparr>,
        tcnt1 := 180000, c1csel := 1\<rparr>"
  show "hc_cec_write [0x40, 0x01] 2 (cec_boot 1500) = Some (EC_RES_SUCCESS, ?s1)"
    by (simp add: hc_cec_write_def cec_send_def cec_boot_def tmr2_start_def
        MAX_CEC_MSG_LEN_def)
  show "cec_isr ?K False True 1 ?s1 = Some ?s2"
    by (simp add: start_trigger cec_boot_def FREE_TIME_NI_def NOMINAL_BIT_TIME_def
        APB1_TICKS_def)
  show "\<not> acknowledged 0x40 1"
    by (simp add: acknowledged_def CEC_BROADCAST_ADDR_def)
  show "timeouts ?K 24 1 ?s2 =
     Some ((cec_boot 1500)
       \<lparr>cec_state := CEC_STATE_INITIATOR_FREE_TIME,
        cec_tx := \<lparr>msgt = \<lparr>buf = [0x40, 0x01] @ replicate 14 0, bit_ofs = 0, byte = 1\<rparr>,
                   len = 2, resends = 1, ack = 0\<rparr>,
        tcnt1 := 108000, c1csel := 1\<rparr>)"
    by (simp add: cec_boot_def timeouts_numeral cec_event_timeout_def enter_state_def
        msgt_get_bit_def msgt_inc_bit_def msgt_is_eom_def inc_cursor_def Let_def
        MAX_CEC_MSG_LEN_def CEC_BROADCAST_ADDR_def CEC_MAX_RESENDS_def
        set_outputs_def gpio_set_level_def tmr_oneshot_start_def DATA_LOW_def DATA_HIGH_def
        START_BIT_LOW_def START_BIT_HIGH_def DATA_ZERO_LOW_def DATA_ZERO_HIGH_def
        DATA_ONE_LOW_def DATA_ONE_HIGH_def NOMINAL_BIT_TIME_def NOMINAL_SAMPLE_TIME_def
        FREE_TIME_RS_def FREE_TIME_NI_def APB1_TICKS_def)
  have "cec_state ?s2 = CEC_STATE_INITIATOR_FREE_TIME" by simp
  moreover have "\<not> acknowledged (buf (msgt (cec_tx ?s2)) ! 0) 1"
    by (simp add: acknowledged_def CEC_BROADCAST_ADDR_def)
  moreover have "resends (cec_tx ?s2) = 0" by simp
  ultimately have "visited ?K 144 1 ?s2 =
      concat (replicate 5 (header_frame @ [CEC_STATE_INITIATOR_FREE_TIME])) @
      header_frame @ [CEC_STATE_IDLE]"
    using nak_transfer [of ?s2 1 ?K] by blast
  then show "CEC_STATE_INITIATOR_DATA_LOW \<notin> set (visited ?K 144 1 ?s2)"
    by (simp only: data_not_in_header_frames not_False_eq_True)
qed

text \<open>
  C2, amended. For every message of 1 to 16 bytes: when the line reads as not
  acknowledged at every sample, the machine makes six attempts that each stop at
  the acknowledge sample of the header block: the line and the timer carry six
  times the start bit and the header byte with its end-of-message and acknowledge
  bits, no data byte, with the resend free time between two attempts. For each k
  below 6, after 24 * k expiries the machine is in FreeTime with resend counter k,
  the same length and the same message bytes and no event recorded; there the
  cursor of a resend is still at bit 0 of byte 1, and the next expiry enters
  StartLow, which resets it to {0,0}. StartLow is entered 6 times. After 144
  expiries the machine is in Idle, exactly one event, send-failed, has been
  recorded, and the stored length and the resend counter are 0.
\<close>
theorem rejected_transfer:
  assumes "cec_state s = CEC_STATE_IDLE"
    and "len (cec_tx s) = 0" and "resends (cec_tx s) = 0"
    and "length (buf (msgt (cec_tx s))) = MAX_CEC_MSG_LEN"
    and "1 \<le> length msg" and "length msg \<le> 16"
    and "\<not> acknowledged (msg ! 0) lvl"
  shows "\<exists>s1 s2 s3.
           hc_cec_write msg (int (length msg)) s = Some (EC_RES_SUCCESS, s1) \<and>
           cec_isr K False True lvl s1 = Some s2 \<and>
           cec_state s2 = CEC_STATE_INITIATOR_FREE_TIME \<and>
           gpio_out s2 = 1 \<and> c1csel s2 = 1 \<and>
           tcnt1 s2 = sint (FREE_TIME_NI (apb1_freq_div_10k s)) \<and>
           (\<forall>k<6. \<exists>s' s''.
              timeouts K (24 * k) lvl s2 = Some s' \<and>
              cec_state s' = CEC_STATE_INITIATOR_FREE_TIME \<and>
              unat (resends (cec_tx s')) = k \<and>
              unat (len (cec_tx s')) = length msg \<and>
              take (length msg) (buf (msgt (cec_tx s'))) = msg \<and>
              mkbp_log s' = mkbp_log s \<and>
              (0 < k \<longrightarrow> bit_ofs (msgt (cec_tx s')) = 0 \<and> byte (msgt (cec_tx s')) = 1) \<and>
              cec_event_timeout K lvl s' = Some s'' \<and>
              cec_state s'' = CEC_STATE_INITIATOR_START_LOW \<and>
              bit_ofs (msgt (cec_tx s'')) = 0 \<and> byte (msgt (cec_tx s'')) = 0) \<and>
           timeouts K 144 lvl s2 = Some s3 \<and>
           visited K 144 lvl s2 =
             concat (replicate 5 (header_frame @ [CEC_STATE_INITIATOR_FREE_TIME])) @
             header_frame @ [CEC_STATE_IDLE] \<and>
           count_list (visited K 144 lvl s2) CEC_STATE_INITIATOR_START_LOW = 6 \<and>
           outputs K 144 lvl s2 =
             concat (replicate 5
               (header_frame_times (apb1_freq_div_10k s) (msg ! 0)
                  (if length msg = 1 then 1 else 0) @
                [(1, sint (FREE_TIME_RS (apb1_freq_div_10k s)), 1)])) @
             header_frame_times (apb1_freq_div_10k s) (msg ! 0)
               (if length msg = 1 then 1 else 0) @
             [(1, ack_verify_ticks (apb1_freq_div_10k s), 1)] \<and>
           cec_state s3 = CEC_STATE_IDLE \<and>
           len (cec_tx s3) = 0 \<and> resends (cec_tx s3) = 0 \<and>
           bit_ofs (msgt (cec_tx s3)) = 0 \<and> byte (msgt (cec_tx s3)) = 0 \<and>
           mkbp_log s3 = mkbp_log s @ [EC_MKBP_CEC_SEND_FAILED K] \<and>
           cec_events s3 = cec_events s OR EC_MKBP_CEC_SEND_FAILED K"
proof -
  let ?f = "apb1_freq_div_10k s"
  define s1 where "s1 = s\<lparr>cec_tx := (cec_tx s)
                  \<lparr>len := word_of_int (int (length msg)),
                   msgt := (msgt (cec_tx s))
                     \<lparr>buf := msg @ drop (length msg) (buf (msgt (cec_tx s)))\<rparr>\<rparr>,
               tcnt2 := 0, c2csel := 1\<rparr>"
  have w: "hc_cec_write msg (int (length msg)) s = Some (EC_RES_SUCCESS, s1)"
    unfolding s1_def using assms(2,4,5,6) by (rule admission)
  define s2 where "s2 = s1\<lparr>cec_state := CEC_STATE_INITIATOR_FREE_TIME, gpio_out := 1,
             tcnt1 := (if resends (cec_tx s1) = 0
                       then sint (FREE_TIME_NI (apb1_freq_div_10k s1))
                       else sint (FREE_TIME_RS (apb1_freq_div_10k s1))),
             c1csel := 1, c2csel := 0\<rparr>"
  have t: "cec_isr K False True lvl s1 = Some s2"
    unfolding s2_def by (rule start_trigger)
  have s2_state: "cec_state s2 = CEC_STATE_INITIATOR_FREE_TIME" by (simp add: s2_def)
  have s2_out: "gpio_out s2 = 1" "c1csel s2 = 1" "tcnt1 s2 = sint (FREE_TIME_NI ?f)"
    using assms(3) by (simp_all add: s2_def s1_def)
  have s2_tx: "cec_tx s2 = (cec_tx s)
                  \<lparr>len := word_of_int (int (length msg)),
                   msgt := (msgt (cec_tx s))
                     \<lparr>buf := msg @ drop (length msg) (buf (msgt (cec_tx s)))\<rparr>\<rparr>"
    by (simp add: s2_def s1_def)
  have s2_rest: "cec_events s2 = cec_events s" "mkbp_log s2 = mkbp_log s"
    "apb1_freq_div_10k s2 = ?f"
    by (simp_all add: s2_def s1_def)
  have ul: "unat (len (cec_tx s2)) = length msg"
    using assms(6) by (simp add: s2_tx unat_of_nat_small)
  have l1: "(len (cec_tx s2) = 1) = (length msg = 1)"
    using ul by (simp add: word_unat_eq_iff)
  have tk: "take (length msg) (buf (msgt (cec_tx s2))) = msg" by (simp add: s2_tx)
  have hd: "buf (msgt (cec_tx s2)) ! 0 = msg ! 0"
    using assms(5) by (cases msg) (simp_all add: s2_tx)
  have nak: "\<not> acknowledged (buf (msgt (cec_tx s2)) ! 0) lvl"
    using assms(7) by (simp add: hd)
  have r0: "resends (cec_tx s2) = 0" using assms(3) by (simp add: s2_tx)
  have rounds: "\<exists>s' s''.
              timeouts K (24 * k) lvl s2 = Some s' \<and>
              cec_state s' = CEC_STATE_INITIATOR_FREE_TIME \<and>
              unat (resends (cec_tx s')) = k \<and>
              unat (len (cec_tx s')) = length msg \<and>
              take (length msg) (buf (msgt (cec_tx s'))) = msg \<and>
              mkbp_log s' = mkbp_log s \<and>
              (0 < k \<longrightarrow> bit_ofs (msgt (cec_tx s')) = 0 \<and> byte (msgt (cec_tx s')) = 1) \<and>
              cec_event_timeout K lvl s' = Some s'' \<and>
              cec_state s'' = CEC_STATE_INITIATOR_START_LOW \<and>
              bit_ofs (msgt (cec_tx s'')) = 0 \<and> byte (msgt (cec_tx s'')) = 0"
    if "k < 6" for k
  proof -
    from that have k: "k \<le> 5" by simp
    from nak_rounds [OF s2_state nak r0 k, of K]
    obtain s' where s': "timeouts K (24 * k) lvl s2 = Some s'"
        "cec_state s' = CEC_STATE_INITIATOR_FREE_TIME"
        "resends (cec_tx s') = of_nat k"
        "len (cec_tx s') = len (cec_tx s2)"
        "buf (msgt (cec_tx s')) = buf (msgt (cec_tx s2))"
        "0 < k \<longrightarrow> bit_ofs (msgt (cec_tx s')) = 0 \<and> byte (msgt (cec_tx s')) = 1"
        "carried s' = carried s2"
      by blast
    obtain s'' where s'': "cec_event_timeout K lvl s' = Some s''"
        "cec_state s'' = CEC_STATE_INITIATOR_START_LOW"
        "cec_tx s'' = (cec_tx s')\<lparr>msgt := (msgt (cec_tx s'))\<lparr>bit_ofs := 0, byte := 0\<rparr>\<rparr>"
      using start_low_step [OF s'(2), of K lvl] by blast
    have "unat (resends (cec_tx s')) = k"
      using k by (simp add: s'(3) unat_of_nat)
    moreover have "mkbp_log s' = mkbp_log s"
      using s'(7) s2_rest by (simp add: carried_def)
    ultimately show ?thesis
      using s' s'' ul tk by simp
  qed
  from nak_transfer [OF s2_state nak r0, of K]
  obtain s3 where s3: "timeouts K 144 lvl s2 = Some s3"
      "visited K 144 lvl s2 =
             concat (replicate 5 (header_frame @ [CEC_STATE_INITIATOR_FREE_TIME])) @
             header_frame @ [CEC_STATE_IDLE]"
      "outputs K 144 lvl s2 =
             concat (replicate 5
               (header_frame_times ?f (msg ! 0) (if length msg = 1 then 1 else 0) @
                [(1, sint (FREE_TIME_RS ?f), 1)])) @
             header_frame_times ?f (msg ! 0) (if length msg = 1 then 1 else 0) @
             [(1, ack_verify_ticks ?f, 1)]"
      "cec_state s3 = CEC_STATE_IDLE"
      "len (cec_tx s3) = 0" "resends (cec_tx s3) = 0"
      "bit_ofs (msgt (cec_tx s3)) = 0" "byte (msgt (cec_tx s3)) = 0"
      "cec_events s3 = cec_events s OR EC_MKBP_CEC_SEND_FAILED K"
      "mkbp_log s3 = mkbp_log s @ [EC_MKBP_CEC_SEND_FAILED K]"
    unfolding hd l1 s2_rest by blast
  have six: "count_list (visited K 144 lvl s2) CEC_STATE_INITIATOR_START_LOW = 6"
    by (simp only: s3(2) six_start_bits)
  show ?thesis
    using w t s2_state s2_out rounds s3 six by blast
qed

theorem rejected_transfer_witness:
  "\<exists>s1 s2 s3.
     hc_cec_write [0x40, 0x01] 2 (cec_boot 1500) = Some (EC_RES_SUCCESS, s1) \<and>
     cec_isr \<lparr>EC_MKBP_CEC_SEND_OK = 65536, EC_MKBP_CEC_SEND_FAILED = 131072\<rparr>
       False True 1 s1 = Some s2 \<and>
     timeouts \<lparr>EC_MKBP_CEC_SEND_OK = 65536, EC_MKBP_CEC_SEND_FAILED = 131072\<rparr>
       144 1 s2 = Some s3 \<and>
     count_list
       (visited \<lparr>EC_MKBP_CEC_SEND_OK = 65536, EC_MKBP_CEC_SEND_FAILED = 131072\<rparr> 144 1 s2)
       CEC_STATE_INITIATOR_START_LOW = 6 \<and>
     cec_state s3 = CEC_STATE_IDLE \<and> len (cec_tx s3) = 0 \<and> resends (cec_tx s3) = 0 \<and>
     mkbp_log s3 = [131072] \<and> cec_events s3 = 131072"
  using rejected_transfer [of "cec_boot 1500" "[0x40, 0x01]" 1
      "\<lparr>EC_MKBP_CEC_SEND_OK = 65536, EC_MKBP_CEC_SEND_FAILED = 131072\<rparr>"]
  by (simp add: cec_boot_def acknowledged_def CEC_BROADCAST_ADDR_def MAX_CEC_MSG_LEN_def) blast

text \<open>
  C3. Entering the AckVerify state samples the line. For a header byte whose low
  nibble is the broadcast address 15, a low level is recorded as no acknowledgment
  (\<open>ack = 0\<close>) and a high level as acknowledgment (\<open>ack = 1\<close>); for every other
  destination, a low level is recorded as acknowledgment and a high level as none.
\<close>
theorem ack_verify_polarity:
  "map_option (\<lambda>s'. ack (cec_tx s')) (enter_state CEC_STATE_INITIATOR_ACK_VERIFY lvl s) =
     Some (if buf (msgt (cec_tx s)) ! 0 AND 0x0f = 15
           then (if lvl = 0 then 0 else 1)
           else (if lvl = 0 then 1 else 0))"
  by (simp add: enter_state_def set_outputs_def Let_def CEC_BROADCAST_ADDR_def
      gpio_set_level_def tmr_oneshot_start_def)

text \<open>
  C4. \<^verbatim>\<open>cec_send\<close> while a transfer is in progress (stored length non-zero) returns
  -1 and leaves the whole state as it was (so the host command answers busy);
  while no transfer is in progress, and for a message that fits the buffer, it
  returns 0, the first \<open>l\<close> bytes of the buffer are the message, the stored length
  is \<open>l\<close>, the start trigger (timer 2) is armed with 0, and nothing else changes.
\<close>
theorem cec_send_busy_or_accepted:
  "(len (cec_tx s) \<noteq> 0 \<longrightarrow>
      cec_send msg l s = Some (-1, s) \<and>
      (params_size \<noteq> 0 \<and> params_size \<le> int MAX_CEC_MSG_LEN \<longrightarrow>
         hc_cec_write msg params_size s = Some (EC_RES_BUSY, s))) \<and>
   (len (cec_tx s) = 0 \<and> unat l \<le> MAX_CEC_MSG_LEN \<and> unat l \<le> length msg \<longrightarrow>
      (\<exists>s'. cec_send msg l s = Some (0, s') \<and>
            take (unat l) (buf (msgt (cec_tx s'))) = take (unat l) msg \<and>
            drop (unat l) (buf (msgt (cec_tx s'))) = drop (unat l) (buf (msgt (cec_tx s))) \<and>
            len (cec_tx s') = l \<and>
            c2csel s' = 1 \<and> tcnt2 s' = 0 \<and>
            s' = s\<lparr>cec_tx := (cec_tx s)\<lparr>len := l,
                     msgt := (msgt (cec_tx s))\<lparr>buf := buf (msgt (cec_tx s'))\<rparr>\<rparr>,
                   tcnt2 := 0, c2csel := 1\<rparr>))"
  by (simp add: cec_send_def hc_cec_write_def tmr2_start_def)

theorem cec_send_busy_or_accepted_witness:
  "cec_send [0x40, 0x01] 2 (cec_boot 1500) =
     Some (0, (cec_boot 1500)
       \<lparr>cec_tx := \<lparr>msgt = \<lparr>buf = [0x40, 0x01] @ replicate 14 0, bit_ofs = 0, byte = 0\<rparr>,
                   len = 2, resends = 0, ack = 0\<rparr>,
        tcnt2 := 0, c2csel := 1\<rparr>) \<and>
   cec_send [0x4f] 1 ((cec_boot 1500)
       \<lparr>cec_tx := \<lparr>msgt = \<lparr>buf = [0x40, 0x01] @ replicate 14 0, bit_ofs = 0, byte = 0\<rparr>,
                   len = 2, resends = 0, ack = 0\<rparr>,
        tcnt2 := 0, c2csel := 1\<rparr>) =
     Some (-1, (cec_boot 1500)
       \<lparr>cec_tx := \<lparr>msgt = \<lparr>buf = [0x40, 0x01] @ replicate 14 0, bit_ofs = 0, byte = 0\<rparr>,
                   len = 2, resends = 0, ack = 0\<rparr>,
        tcnt2 := 0, c2csel := 1\<rparr>)"
  using cec_send_busy_or_accepted [of "cec_boot 1500" "[0x40, 0x01]" 2 1]
    cec_send_busy_or_accepted [of "(cec_boot 1500)
       \<lparr>cec_tx := \<lparr>msgt = \<lparr>buf = [0x40, 0x01] @ replicate 14 0, bit_ofs = 0, byte = 0\<rparr>,
                   len = 2, resends = 0, ack = 0\<rparr>,
        tcnt2 := 0, c2csel := 1\<rparr>" "[0x4f]" 1 1]
  by (simp add: cec_boot_def MAX_CEC_MSG_LEN_def cec_send_def tmr2_start_def)

text \<open>
  C5, as stated: the bit read returns 0 whenever the byte offset has reached the
  declared message length. It does not: with a declared length of 1, byte offset 1
  and bit offset 0, the read returns the top bit of the second buffer byte.
\<close>
theorem msgt_get_bit_past_length_counterexample:
  "uint (len \<lparr>msgt = \<lparr>buf = [0x40, 0x80] @ replicate 14 0, bit_ofs = 0, byte = 1\<rparr>,
              len = 1, resends = 0, ack = 0\<rparr>)
     \<le> uint (byte (msgt \<lparr>msgt = \<lparr>buf = [0x40, 0x80] @ replicate 14 0, bit_ofs = 0, byte = 1\<rparr>,
                  len = 1, resends = 0, ack = 0\<rparr>)) \<and>
   msgt_get_bit (msgt \<lparr>msgt = \<lparr>buf = [0x40, 0x80] @ replicate 14 0, bit_ofs = 0, byte = 1\<rparr>,
                  len = 1, resends = 0, ack = 0\<rparr>) = Some 128"
  by (simp add: msgt_get_bit_def MAX_CEC_MSG_LEN_def)

text \<open>
  C5, amended: the bit read returns 0, without failing and without reading the
  buffer, for every cursor whose byte offset is at least the buffer capacity 16,
  whatever the buffer holds and whatever the bit offset is.
\<close>
theorem msgt_get_bit_past_capacity:
  "MAX_CEC_MSG_LEN \<le> unat (byte m) \<Longrightarrow> msgt_get_bit m = Some 0"
  by (simp add: msgt_get_bit_def)

theorem msgt_get_bit_past_capacity_witness:
  "MAX_CEC_MSG_LEN \<le> unat (16 :: u8) \<and>
   msgt_get_bit \<lparr>buf = replicate 16 255, bit_ofs = 9, byte = 16\<rparr> = Some 0"
  using msgt_get_bit_past_capacity [of "\<lparr>buf = replicate 16 255, bit_ofs = 9, byte = 16\<rparr>"]
  by (simp add: MAX_CEC_MSG_LEN_def)

text \<open>
  C6, as stated, bounds the bit offset by 7 exclusive. While the last bit of a byte
  is sent the bit offset is 7: the state below is reached by a write of the
  one-byte message 0x40, the start trigger and 17 timer expiries.
\<close>
theorem cursor_bit_range_counterexample:
  "cec_reach \<lparr>EC_MKBP_CEC_SEND_OK = 65536, EC_MKBP_CEC_SEND_FAILED = 131072\<rparr>
     ((cec_boot 1500)
       \<lparr>cec_state := CEC_STATE_INITIATOR_HEADER_DEST_LOW,
        cec_tx := \<lparr>msgt = \<lparr>buf = 0x40 # replicate 15 0, bit_ofs = 7, byte = 0\<rparr>,
                   len = 1, resends = 0, ack = 0\<rparr>,
        gpio_out := 0, tcnt1 := 22500, c1csel := 1\<rparr>) \<and>
   len (cec_tx ((cec_boot 1500)
       \<lparr>cec_state := CEC_STATE_INITIATOR_HEADER_DEST_LOW,
        cec_tx := \<lparr>msgt = \<lparr>buf = 0x40 # replicate 15 0, bit_ofs = 7, byte = 0\<rparr>,
                   len = 1, resends = 0, ack = 0\<rparr>,
        gpio_out := 0, tcnt1 := 22500, c1csel := 1\<rparr>)) = 1 \<and>
   \<not> unat (bit_ofs (msgt (cec_tx ((cec_boot 1500)
       \<lparr>cec_state := CEC_STATE_INITIATOR_HEADER_DEST_LOW,
        cec_tx := \<lparr>msgt = \<lparr>buf = 0x40 # replicate 15 0, bit_ofs = 7, byte = 0\<rparr>,
                   len = 1, resends = 0, ack = 0\<rparr>,
        gpio_out := 0, tcnt1 := 22500, c1csel := 1\<rparr>)))) < 7"
  using reach_mid_header
    [of "\<lparr>EC_MKBP_CEC_SEND_OK = 65536, EC_MKBP_CEC_SEND_FAILED = 131072\<rparr>"]
  by simp

text \<open>
  C6, amended. In every reachable state the stored length is at most 16, the bit
  offset is in [0,8) and the byte offset does not exceed the stored length; and
  entering Idle, like entering StartLow (the start bit of each frame), leaves the
  cursor at {0,0}.
\<close>
theorem cursor_invariant:
  assumes "cec_reach K s"
  shows "unat (len (cec_tx s)) \<le> MAX_CEC_MSG_LEN \<and>
         unat (bit_ofs (msgt (cec_tx s))) < 8 \<and>
         unat (byte (msgt (cec_tx s))) \<le> unat (len (cec_tx s)) \<and>
         (\<exists>s'. enter_state CEC_STATE_IDLE lvl s = Some s' \<and>
               bit_ofs (msgt (cec_tx s')) = 0 \<and> byte (msgt (cec_tx s')) = 0) \<and>
         (\<exists>s'. enter_state CEC_STATE_INITIATOR_START_LOW lvl s = Some s' \<and>
               bit_ofs (msgt (cec_tx s')) = 0 \<and> byte (msgt (cec_tx s')) = 0)"
proof -
  from assms have i: "cec_inv s" by (rule reach_inv)
  then have "cursor_ok (cec_state s) (unat (bit_ofs (msgt (cec_tx s))))
        (unat (byte (msgt (cec_tx s)))) (unat (len (cec_tx s)))"
    by (simp add: cec_inv_def)
  then have "unat (bit_ofs (msgt (cec_tx s))) \<le> 7 \<and>
      unat (byte (msgt (cec_tx s))) \<le> unat (len (cec_tx s))"
    by (rule cursor_ok_range)
  moreover from i have "unat (len (cec_tx s)) \<le> MAX_CEC_MSG_LEN"
    by (simp add: cec_inv_def)
  ultimately show ?thesis by (simp add: enter_state_def)
qed

theorem cursor_invariant_witness:
  "unat (bit_ofs (msgt (cec_tx ((cec_boot 1500)
       \<lparr>cec_state := CEC_STATE_INITIATOR_HEADER_DEST_LOW,
        cec_tx := \<lparr>msgt = \<lparr>buf = 0x40 # replicate 15 0, bit_ofs = 7, byte = 0\<rparr>,
                   len = 1, resends = 0, ack = 0\<rparr>,
        gpio_out := 0, tcnt1 := 22500, c1csel := 1\<rparr>)))) < 8 \<and>
   unat (byte (msgt (cec_tx ((cec_boot 1500)
       \<lparr>cec_state := CEC_STATE_INITIATOR_HEADER_DEST_LOW,
        cec_tx := \<lparr>msgt = \<lparr>buf = 0x40 # replicate 15 0, bit_ofs = 7, byte = 0\<rparr>,
                   len = 1, resends = 0, ack = 0\<rparr>,
        gpio_out := 0, tcnt1 := 22500, c1csel := 1\<rparr>)))) \<le> 1"
  using cursor_invariant [OF reach_mid_header
    [of "\<lparr>EC_MKBP_CEC_SEND_OK = 65536, EC_MKBP_CEC_SEND_FAILED = 131072\<rparr>"], of 0]
  by simp

text \<open>
  C7. Entering FreeTime drives the line high and arms the one-shot timer: with the
  new-initiator duration when the resend counter is 0, with the resend duration
  otherwise. For every clock basis that is not 0, that is every non-zero value
  that \<^verbatim>\<open>cec_init\<close> stores for a 32-bit clock frequency, the resend duration
  (3 nominal bit times, 72 times the basis) is strictly shorter than the
  new-initiator duration (5 nominal bit times, 120 times the basis).
\<close>
theorem free_time_entry:
  "enter_state CEC_STATE_INITIATOR_FREE_TIME lvl s =
     Some (s\<lparr>cec_state := CEC_STATE_INITIATOR_FREE_TIME, gpio_out := 1,
             tcnt1 := (if resends (cec_tx s) = 0
                       then sint (FREE_TIME_NI (apb1_freq_div_10k s))
                       else sint (FREE_TIME_RS (apb1_freq_div_10k s))),
             c1csel := 1\<rparr>) \<and>
   (apb1_freq_div_10k (cec_init freq s0) \<noteq> 0 \<longrightarrow>
      FREE_TIME_RS (apb1_freq_div_10k (cec_init freq s0)) <
        FREE_TIME_NI (apb1_freq_div_10k (cec_init freq s0)) \<and>
      sint (FREE_TIME_RS (apb1_freq_div_10k (cec_init freq s0))) =
        72 * uint (apb1_freq_div_10k (cec_init freq s0)) \<and>
      sint (FREE_TIME_NI (apb1_freq_div_10k (cec_init freq s0))) =
        120 * uint (apb1_freq_div_10k (cec_init freq s0)))"
proof (intro conjI impI)
  show "enter_state CEC_STATE_INITIATOR_FREE_TIME lvl s =
     Some (s\<lparr>cec_state := CEC_STATE_INITIATOR_FREE_TIME, gpio_out := 1,
             tcnt1 := (if resends (cec_tx s) = 0
                       then sint (FREE_TIME_NI (apb1_freq_div_10k s))
                       else sint (FREE_TIME_RS (apb1_freq_div_10k s))),
             c1csel := 1\<rparr>)"
    by (rule enter_free_time)
next
  let ?f = "apb1_freq_div_10k (cec_init freq s0)"
  assume nz: "?f \<noteq> 0"
  have b: "unat ?f \<le> 429496" by (rule stored_basis_le)
  from nz have p: "0 < unat ?f" by (simp add: unat_gt_0)
  from b have w: "2400 * unat ?f < 2 ^ 32" by simp
  show "FREE_TIME_RS ?f < FREE_TIME_NI ?f"
    using p w by (rule free_time_order [THEN conjunct1])
  show "sint (FREE_TIME_RS ?f) = 72 * uint ?f"
    using free_time_order [OF p w] by simp
  show "sint (FREE_TIME_NI ?f) = 120 * uint ?f"
    using free_time_order [OF p w] by simp
qed

theorem free_time_entry_witness:
  "apb1_freq_div_10k (cec_init 15000000 (cec_boot 0)) = 1500 \<and>
   FREE_TIME_RS 1500 < FREE_TIME_NI 1500 \<and>
   sint (FREE_TIME_RS 1500) = 108000 \<and> sint (FREE_TIME_NI 1500) = 180000 \<and>
   enter_state CEC_STATE_INITIATOR_FREE_TIME 1 (cec_boot 1500) =
     Some ((cec_boot 1500)\<lparr>cec_state := CEC_STATE_INITIATOR_FREE_TIME, gpio_out := 1,
             tcnt1 := 180000, c1csel := 1\<rparr>)"
proof -
  have e: "apb1_freq_div_10k (cec_init 15000000 (cec_boot 0)) = 1500"
    by (simp add: cec_init_def)
  have "enter_state CEC_STATE_INITIATOR_FREE_TIME 1 (cec_boot 1500) =
     Some ((cec_boot 1500)\<lparr>cec_state := CEC_STATE_INITIATOR_FREE_TIME, gpio_out := 1,
             tcnt1 := (if resends (cec_tx (cec_boot 1500)) = 0
                       then sint (FREE_TIME_NI (apb1_freq_div_10k (cec_boot 1500)))
                       else sint (FREE_TIME_RS (apb1_freq_div_10k (cec_boot 1500)))),
             c1csel := 1\<rparr>) \<and>
   ((1500 :: u32) \<noteq> 0 \<longrightarrow>
      FREE_TIME_RS 1500 < FREE_TIME_NI 1500 \<and>
      sint (FREE_TIME_RS 1500) = 72 * uint (1500 :: u32) \<and>
      sint (FREE_TIME_NI 1500) = 120 * uint (1500 :: u32))"
    using free_time_entry [of 1 "cec_boot 1500" 15000000 "cec_boot 0"]
    unfolding e .
  then show ?thesis using e by (simp add: cec_boot_def)
qed

text \<open>
  C8, as stated, holds for every clock basis. It fails at the basis 0, where every
  duration is 0 ticks, and where a 32-bit product wraps: at the basis 2863312 the
  data-zero low time is 7 ticks, at the basis 2386093 the data-one high time is 1
  tick.
\<close>
theorem data_timing_order_counterexample:
  "\<not> DATA_LOW 0 1 < DATA_LOW 0 0 \<and> \<not> DATA_HIGH 0 0 < DATA_HIGH 0 1 \<and>
   \<not> DATA_LOW 2863312 1 < DATA_LOW 2863312 0 \<and>
   \<not> DATA_HIGH 2386093 0 < DATA_HIGH 2386093 1"
  by (simp add: DATA_LOW_def DATA_HIGH_def DATA_ONE_LOW_def DATA_ZERO_LOW_def
      DATA_ONE_HIGH_def DATA_ZERO_HIGH_def APB1_TICKS_def)

text \<open>
  C8, amended. With the tick computation of the code, ticks = microseconds * basis
  / 100 in unsigned 32-bit arithmetic, and for every clock basis that is not 0 and
  for which 1800 * basis stays below \<open>2 ^ 32\<close>: the low time of a one (6 * basis)
  is shorter than the low time of a zero (15 * basis), and the high time of a one
  (18 * basis) is longer than the high time of a zero (9 * basis).
\<close>
theorem data_timing_order:
  assumes "0 < unat f" and "1800 * unat f < 2 ^ 32"
  shows "DATA_LOW f 1 < DATA_LOW f 0 \<and> DATA_HIGH f 0 < DATA_HIGH f 1 \<and>
         unat (DATA_LOW f 1) = 6 * unat f \<and> unat (DATA_LOW f 0) = 15 * unat f \<and>
         unat (DATA_HIGH f 1) = 18 * unat f \<and> unat (DATA_HIGH f 0) = 9 * unat f"
  using assms
  by (simp add: DATA_LOW_def DATA_HIGH_def DATA_ONE_LOW_def DATA_ZERO_LOW_def
      DATA_ONE_HIGH_def DATA_ZERO_HIGH_def word_less_nat_alt unat_APB1_TICKS)

theorem data_timing_order_witness:
  "0 < unat (1500 :: u32) \<and> 1800 * unat (1500 :: u32) < 2 ^ 32 \<and>
   DATA_LOW 1500 1 < DATA_LOW 1500 0 \<and> DATA_HIGH 1500 0 < DATA_HIGH 1500 1 \<and>
   unat (DATA_LOW 1500 1) = 9000 \<and> unat (DATA_LOW 1500 0) = 22500 \<and>
   unat (DATA_HIGH 1500 1) = 27000 \<and> unat (DATA_HIGH 1500 0) = 13500"
  using data_timing_order [of 1500]
  by simp

text \<open>
  C9. When the byte offset is at least the buffer capacity 16, advancing the cursor
  leaves the byte offset as it is and adds 1 to the bit offset without wrapping it
  at 8: from 7 it becomes 8, then 9, and it keeps growing (up to the 8-bit limit
  255). The guard compares with the capacity: the function has no access to the
  declared message length.
\<close>
theorem msgt_inc_bit_past_capacity:
  "MAX_CEC_MSG_LEN \<le> unat (byte m) \<Longrightarrow>
     msgt_inc_bit m = m\<lparr>bit_ofs := bit_ofs m + 1\<rparr> \<and>
     byte (msgt_inc_bit m) = byte m \<and>
     (bit_ofs m = 7 \<longrightarrow> bit_ofs (msgt_inc_bit m) = 8 \<and>
        bit_ofs (msgt_inc_bit (msgt_inc_bit m)) = 9) \<and>
     (unat (bit_ofs m) < 255 \<longrightarrow> unat (bit_ofs (msgt_inc_bit m)) = unat (bit_ofs m) + 1)"
  apply (simp add: msgt_inc_bit_def Let_def)
  apply (auto simp: unat_word_ariths)
  done

theorem msgt_inc_bit_past_capacity_witness:
  "MAX_CEC_MSG_LEN \<le> unat (16 :: u8) \<and>
   msgt_inc_bit \<lparr>buf = replicate 16 0, bit_ofs = 7, byte = 16\<rparr>
     = \<lparr>buf = replicate 16 0, bit_ofs = 8, byte = 16\<rparr> \<and>
   msgt_inc_bit \<lparr>buf = replicate 16 0, bit_ofs = 8, byte = 16\<rparr>
     = \<lparr>buf = replicate 16 0, bit_ofs = 9, byte = 16\<rparr>"
  using msgt_inc_bit_past_capacity [of "\<lparr>buf = replicate 16 0, bit_ofs = 7, byte = 16\<rparr>"]
        msgt_inc_bit_past_capacity [of "\<lparr>buf = replicate 16 0, bit_ofs = 8, byte = 16\<rparr>"]
  by (simp add: MAX_CEC_MSG_LEN_def)

text \<open>
  C10. A timer expiry in the Idle state changes nothing: the state stays Idle, and
  the buffer, the stored length, the cursor, the resend counter, the
  acknowledgment flag, the pending events, the line level and the timers are as
  before.
\<close>
theorem timeout_in_idle_is_noop:
  "cec_state s = CEC_STATE_IDLE \<Longrightarrow> cec_event_timeout K lvl s = Some s"
  by (simp add: cec_event_timeout_def)

theorem timeout_in_idle_is_noop_witness:
  "cec_state (cec_boot 1500) = CEC_STATE_IDLE \<and>
   cec_event_timeout \<lparr>EC_MKBP_CEC_SEND_OK = 65536, EC_MKBP_CEC_SEND_FAILED = 131072\<rparr> 1
     (cec_boot 1500) = Some (cec_boot 1500)"
  using timeout_in_idle_is_noop [of "cec_boot 1500"]
  by (simp add: cec_boot_def)

end
